theory Spec2Isabelle
  imports Main "HOL-Library.Word"
begin

unbundle bit_operations_syntax

section \<open>File over EtherCAT (FoE): a model of \<^verbatim>\<open>src/ec_foe.c\<close>\<close>

text \<open>
  The two blocking transfer functions \<^verbatim>\<open>ecx_FOEread\<close> and \<^verbatim>\<open>ecx_FOEwrite\<close> are
  translated statement by statement. Their local variables live in one record, the
  master context in another, and every call into the mailbox layer appends an event to
  a trace kept in the context. The slave is a script: the list of outcomes of the
  successive calls of \<^verbatim>\<open>ecx_mbxreceive\<close> and the list of outcomes of the successive
  calls of \<^verbatim>\<open>ecx_mbxsend\<close>.

  An \<^verbatim>\<open>if\<close> that guards a single assignment is written as the assignment of a
  conditional value: \<^verbatim>\<open>if (c) x = v;\<close> is \<open>x := (if c then v else x)\<close>.

  C integers: \<^verbatim>\<open>uint8\<close>, \<^verbatim>\<open>uint16\<close> and \<^verbatim>\<open>uint32\<close> are words and wrap around.
  The signed \<^verbatim>\<open>int\<close> and \<^verbatim>\<open>int32\<close> variables are \<open>int\<close>: signed overflow is undefined
  in C, so the model is exact as long as the counters stay below \<open>2 ^ 31\<close>.
\<close>

type_synonym uint8 = "8 word"
type_synonym uint16 = "16 word"
type_synonym uint32 = "32 word"

subsection \<open>Packets\<close>

text \<open>
  \<^verbatim>\<open>ec_mbxheadert\<close> is declared in a header that is not part of the source at hand;
  its four fields are the ones \<^verbatim>\<open>ec_foe.c\<close> assigns (6 octets, packed).
\<close>

record ec_mbxheadert =
  length_mbx :: uint16    \<comment> \<open>\<^verbatim>\<open>length\<close>\<close>
  address :: uint16
  priority :: uint8
  mbxtype :: uint8

text \<open>
  \<^verbatim>\<open>ec_FOEt\<close>. The first anonymous union (\<^verbatim>\<open>Password\<close>, \<^verbatim>\<open>PacketNumber\<close>,
  \<^verbatim>\<open>ErrorCode\<close>) is one 32-bit field, the second (\<^verbatim>\<open>FileName\<close>, \<^verbatim>\<open>Data\<close>,
  \<^verbatim>\<open>ErrorText\<close>) one array of octets.
\<close>

record ec_FOEt =
  MbxHeader :: ec_mbxheadert
  OpCode :: uint8
  Reserved :: uint8
  PacketNumber :: uint32  \<comment> \<open>also \<^verbatim>\<open>Password\<close> and \<^verbatim>\<open>ErrorCode\<close>\<close>
  Data :: "uint8 list"    \<comment> \<open>also \<^verbatim>\<open>FileName\<close> and \<^verbatim>\<open>ErrorText\<close>\<close>

abbreviation Password :: "ec_FOEt \<Rightarrow> uint32" where
  "Password \<equiv> PacketNumber"

abbreviation ErrorCode :: "ec_FOEt \<Rightarrow> uint32" where
  "ErrorCode \<equiv> PacketNumber"

abbreviation FileName :: "ec_FOEt \<Rightarrow> uint8 list" where
  "FileName \<equiv> Data"

subsection \<open>Constants and macros of the headers\<close>

text \<open>
  Modelled from the spec: the opcodes \<^verbatim>\<open>ECT_FOE_*\<close> of the missing header, with the
  values of the wire format: READ=1, WRITE=2, DATA=3, ACK=4, ERROR=5, BUSY=6.
\<close>

definition ECT_FOE_READ :: uint8 where "ECT_FOE_READ = 1"
definition ECT_FOE_WRITE :: uint8 where "ECT_FOE_WRITE = 2"
definition ECT_FOE_DATA :: uint8 where "ECT_FOE_DATA = 3"
definition ECT_FOE_ACK :: uint8 where "ECT_FOE_ACK = 4"
definition ECT_FOE_ERROR :: uint8 where "ECT_FOE_ERROR = 5"
definition ECT_FOE_BUSY :: uint8 where "ECT_FOE_BUSY = 6"

text \<open>
  Modelled from the spec: the mailbox type \<^verbatim>\<open>ECT_MBXT_FOE\<close> of the missing header.
  The wire format gives the low nibble of the type field as FoE (\<^verbatim>\<open>0x0C\<close>) and the
  high nibble as the session counter. Nothing below depends on the value beyond its
  being a low nibble.
\<close>

definition ECT_MBXT_FOE :: uint8 where "ECT_MBXT_FOE = 0x0C"

text \<open>
  Modelled from the spec: the macro \<^verbatim>\<open>MBX_HDR_SET_CNT\<close> of the missing header puts the
  counter into the high nibble of the type field.
\<close>

definition MBX_HDR_SET_CNT :: "uint8 \<Rightarrow> uint8" where
  "MBX_HDR_SET_CNT cnt = push_bit 4 cnt"

text \<open>The counter a type field carries: its high nibble.\<close>

definition mbx_hdr_cnt :: "uint8 \<Rightarrow> uint8" where
  "mbx_hdr_cnt t = drop_bit 4 t"

text \<open>
  Modelled from the spec: \<^verbatim>\<open>ec_nextmbxcnt\<close> of the mailbox layer,
  \<open>next_mbx_cnt(prev)\<close> returns \<open>((prev mod 7) + 1)\<close>.
\<close>

definition ec_nextmbxcnt :: "uint8 \<Rightarrow> uint8" where
  "ec_nextmbxcnt cnt = (cnt mod 7) + 1"

text \<open>
  Modelled from the spec: the byte-order macros \<^verbatim>\<open>htoes\<close>, \<^verbatim>\<open>htoel\<close>, \<^verbatim>\<open>etohs\<close>,
  \<^verbatim>\<open>etohl\<close> of the missing header. All multi-byte fields are little-endian on the
  wire; the fields of \<open>ec_FOEt\<close> hold the wire value, and on a little-endian host the
  macros are the identity.
\<close>

definition htoes :: "uint16 \<Rightarrow> uint16" where "htoes x = x"
definition htoel :: "uint32 \<Rightarrow> uint32" where "htoel x = x"
definition etohs :: "uint16 \<Rightarrow> uint16" where "etohs x = x"
definition etohl :: "uint32 \<Rightarrow> uint32" where "etohl x = x"

text \<open>
  Modelled from the spec: \<^verbatim>\<open>EC_MAXMBX\<close> of the missing header, the size of a mailbox
  buffer; the spec leaves the number open, 1486 is the size of an Ethernet payload
  less the EtherCAT headers. It bounds the file name and sizes the data array only.
\<close>

definition EC_MAXMBX :: nat where "EC_MAXMBX = 1486"

text \<open>
  \<^verbatim>\<open>EC_MAXFOEDATA\<close>, lines 20-25: the header is 6 octets, then \<^verbatim>\<open>uint8\<close>,
  \<^verbatim>\<open>uint8\<close>, \<^verbatim>\<open>uint32\<close>.
\<close>

definition EC_MAXFOEDATA :: nat where
  "EC_MAXFOEDATA = EC_MAXMBX - (6 + 1 + 1 + 4)"

text \<open>
  Modelled from the spec: the error sentinels \<^verbatim>\<open>EC_ERR_TYPE_*\<close> of the missing
  header. The spec asks for distinct values whose negation is distinguishable from a
  positive work counter; the numbers are those of the enumeration in the upstream
  header, and only their being positive and distinct is used.
\<close>

definition EC_ERR_TYPE_PACKET_ERROR :: int where "EC_ERR_TYPE_PACKET_ERROR = 3"
definition EC_ERR_TYPE_FOE_ERROR :: int where "EC_ERR_TYPE_FOE_ERROR = 5"
definition EC_ERR_TYPE_FOE_BUF2SMALL :: int where "EC_ERR_TYPE_FOE_BUF2SMALL = 6"
definition EC_ERR_TYPE_FOE_PACKETNUMBER :: int where "EC_ERR_TYPE_FOE_PACKETNUMBER = 7"
definition EC_ERR_TYPE_FOE_FILE_NOTFOUND :: int where "EC_ERR_TYPE_FOE_FILE_NOTFOUND = 10"

subsection \<open>Pointers, events and the context\<close>

text \<open>
  The values a variable of type \<^verbatim>\<open>ec_mbxbuft *\<close> takes in \<^verbatim>\<open>ec_foe.c\<close>: \<^verbatim>\<open>NULL\<close>,
  a buffer of the mailbox pool, and, at line 371, the address of the local variable
  \<^verbatim>\<open>MbxOut\<close> itself.
\<close>

datatype ptr = NULL | Mbx nat | AddrOf_MbxOut

text \<open>
  The calls that leave \<^verbatim>\<open>ec_foe.c\<close>, and the copies into the caller's buffer. A
  send records the pointer passed, the packet stored at it when it is a pool buffer,
  and the work counter returned.
\<close>

datatype event =
    E_mbxreceive nat                         \<comment> \<open>\<^verbatim>\<open>ecx_mbxreceive\<close> handed over buffer \<open>n\<close>\<close>
  | E_getmbx nat                             \<comment> \<open>\<^verbatim>\<open>ecx_getmbx\<close> returned buffer \<open>n\<close>\<close>
  | E_mbxsend ptr "ec_FOEt option" int       \<comment> \<open>\<^verbatim>\<open>ecx_mbxsend\<close>\<close>
  | E_dropmbx ptr                            \<comment> \<open>\<^verbatim>\<open>ecx_dropmbx\<close>\<close>
  | E_FOEhook uint16 int int                 \<comment> \<open>\<^verbatim>\<open>context->FOEhook(slave, packetnumber, size)\<close>\<close>
  | E_memcpy int nat                         \<comment> \<open>\<^verbatim>\<open>memcpy(p, &aFOEp->Data[0], n)\<close>: \<open>n\<close> octets to the caller at offset \<open>p\<close>\<close>

text \<open>
  \<^verbatim>\<open>ecx_contextt\<close>, cut down to what \<^verbatim>\<open>ec_foe.c\<close> touches: the entry
  \<^verbatim>\<open>slavelist[slave]\<close> of the slave addressed (\<open>mbx_l\<close>, \<open>mbx_cnt\<close>), whether a
  progress hook is installed, the memory of the pool buffers, the scripted slave and
  the trace.
\<close>

record ecx_contextt =
  mbx_l :: uint16
  mbx_cnt :: uint8
  FOEhook :: bool
  mbxmem :: "nat \<Rightarrow> ec_FOEt"
  mbxnext :: nat
  rxscript :: "(int \<times> ec_FOEt) list"
  txscript :: "int list"
  trace :: "event list"

definition log_event :: "event \<Rightarrow> ecx_contextt \<Rightarrow> ecx_contextt" where
  "log_event e c = c\<lparr>trace := trace c @ [e]\<rparr>"

text \<open>
  Modelled from the spec: \<^verbatim>\<open>ec_clearmbx\<close> of the mailbox layer zeroes a buffer.
\<close>

definition ec_clearmbx :: "ec_FOEt" where
  "ec_clearmbx =
     \<lparr>MbxHeader = \<lparr>length_mbx = 0, address = 0, priority = 0, mbxtype = 0\<rparr>,
      OpCode = 0, Reserved = 0, PacketNumber = 0, Data = replicate EC_MAXFOEDATA 0\<rparr>"

text \<open>
  Reading and writing through a buffer pointer. The code dereferences pool buffers
  only; for any other pointer \<open>deref\<close> gives the zeroed packet and \<open>store\<close> does nothing.
\<close>

definition load :: "ecx_contextt \<Rightarrow> ptr \<Rightarrow> ec_FOEt option" where
  "load c q = (case q of Mbx n \<Rightarrow> Some (mbxmem c n) | _ \<Rightarrow> None)"

definition deref :: "ecx_contextt \<Rightarrow> ptr \<Rightarrow> ec_FOEt" where
  "deref c q = (case q of Mbx n \<Rightarrow> mbxmem c n | _ \<Rightarrow> ec_clearmbx)"

definition store :: "ptr \<Rightarrow> (ec_FOEt \<Rightarrow> ec_FOEt) \<Rightarrow> ecx_contextt \<Rightarrow> ecx_contextt" where
  "store q f c = (case q of Mbx n \<Rightarrow> c\<lparr>mbxmem := (mbxmem c)(n := f (mbxmem c n))\<rparr> | _ \<Rightarrow> c)"

subsection \<open>The mailbox layer\<close>

text \<open>
  Modelled from the spec: \<^verbatim>\<open>ecx_mbxreceive\<close> of the mailbox layer.
  \<open>mbx_receive(slave, &out_buf, timeout_us)\<close> blocks up to the timeout; on success it
  transfers ownership of a filled buffer to the caller; \<open>wkc > 0\<close> means success.
  The next entry of the script is the outcome; a script that has run out is a slave
  that stays silent (work counter 0). The result is the work counter, the new value of
  the pointer variable passed by reference, and the context.
\<close>

definition ecx_mbxreceive ::
  "ecx_contextt \<Rightarrow> uint16 \<Rightarrow> ptr \<Rightarrow> int \<Rightarrow> int \<times> ptr \<times> ecx_contextt" where
  "ecx_mbxreceive c slave mbx timeout =
     (case rxscript c of
        [] \<Rightarrow> (0, mbx, c)
      | (w, frame) # rest \<Rightarrow>
          if w > 0 then
            (w, Mbx (mbxnext c),
             log_event (E_mbxreceive (mbxnext c))
               (c\<lparr>rxscript := rest,
                  mbxmem := (mbxmem c)(mbxnext c := frame),
                  mbxnext := Suc (mbxnext c)\<rparr>))
          else (w, mbx, c\<lparr>rxscript := rest\<rparr>))"

text \<open>
  Modelled from the spec: \<^verbatim>\<open>ecx_getmbx\<close> of the mailbox layer,
  \<open>get_mbx(context)\<close> acquires a mailbox-sized buffer from the pool.
\<close>

definition ecx_getmbx :: "ecx_contextt \<Rightarrow> ptr \<times> ecx_contextt" where
  "ecx_getmbx c =
     (Mbx (mbxnext c), log_event (E_getmbx (mbxnext c)) (c\<lparr>mbxnext := Suc (mbxnext c)\<rparr>))"

text \<open>
  Modelled from the spec: \<^verbatim>\<open>ecx_mbxsend\<close> of the mailbox layer.
  \<open>mbx_send(slave, buf, timeout_us)\<close> returns \<open>wkc > 0\<close> on success and consumes the
  buffer on success. The next entry of the send script is the outcome; a script that
  has run out is a slave that does not take the mailbox (work counter 0). The timeout,
  \<^verbatim>\<open>EC_TIMEOUTTXM\<close> at every call, is left out. Who owns the buffer afterwards is read
  off the trace, where the send is recorded with its work counter.
\<close>

definition next_wkc :: "int list \<Rightarrow> int" where
  "next_wkc ws = (case ws of [] \<Rightarrow> 0 | w # _ \<Rightarrow> w)"

definition ecx_mbxsend :: "ecx_contextt \<Rightarrow> uint16 \<Rightarrow> ptr \<Rightarrow> int \<times> ecx_contextt" where
  "ecx_mbxsend c slave mbx =
     (next_wkc (txscript c),
      log_event (E_mbxsend mbx (load c mbx) (next_wkc (txscript c)))
        (c\<lparr>txscript := tl (txscript c)\<rparr>))"

text \<open>
  Modelled from the spec: \<^verbatim>\<open>ecx_dropmbx\<close> of the mailbox layer,
  \<open>drop_mbx(context, buf)\<close> releases a buffer.
\<close>

definition ecx_dropmbx :: "ecx_contextt \<Rightarrow> ptr \<Rightarrow> ecx_contextt" where
  "ecx_dropmbx c mbx = log_event (E_dropmbx mbx) c"

text \<open>
  \<^verbatim>\<open>if (context->FOEhook) context->FOEhook(slave, packetnumber, size);\<close>
  (lines 164-167 and 280-283). The hook's return value is not used.
\<close>

definition FOEhook_call :: "uint16 \<Rightarrow> int \<Rightarrow> int \<Rightarrow> ecx_contextt \<Rightarrow> ecx_contextt" where
  "FOEhook_call slave packetnumber sz c =
     (if FOEhook c then log_event (E_FOEhook slave packetnumber sz) c else c)"

text \<open>
  \<^verbatim>\<open>memcpy(dst, src, n)\<close> on the octets from \<open>dst\<close> and from \<open>src\<close> onwards. It is C's
  \<^verbatim>\<open>memcpy\<close> when both hold at least \<open>n\<close> octets.
\<close>

definition memcpy :: "uint8 list \<Rightarrow> uint8 list \<Rightarrow> nat \<Rightarrow> uint8 list" where
  "memcpy dst src n = take n src @ drop n dst"

subsection \<open>Local variables\<close>

text \<open>
  The local variables and parameters of \<^verbatim>\<open>ecx_FOEread\<close> and \<^verbatim>\<open>ecx_FOEwrite\<close> that
  live across statements. \<open>psize\<close> is the cell \<^verbatim>\<open>*psize\<close> in the read and the
  parameter \<^verbatim>\<open>psize\<close> in the write. The caller's buffer is the list \<open>p_mem\<close> and the
  pointer \<^verbatim>\<open>p\<close> is the offset \<open>p\<close> into it.
\<close>

record foe_locals =
  ctx :: ecx_contextt
  psize :: int
  p_mem :: "uint8 list"
  p :: int
  wkc :: int
  dataread :: int
  buffersize :: int
  prevpacket :: int
  sendpacket :: int
  segmentdata :: int
  maxdata :: uint16
  MbxIn :: ptr
  MbxOut :: ptr
  FOEp :: ptr
  worktodo :: bool
  dofinalzero :: bool

text \<open>The function entry: both functions start from these values (lines 78-79, 218-220).\<close>

definition foe_entry :: "ecx_contextt \<Rightarrow> int \<Rightarrow> uint8 list \<Rightarrow> foe_locals" where
  "foe_entry c sz buf =
     \<lparr>ctx = c, psize = sz, p_mem = buf, p = 0, wkc = 0, dataread = 0,
      buffersize = 0, prevpacket = 0, sendpacket = 0, segmentdata = 0, maxdata = 0,
      MbxIn = NULL, MbxOut = NULL, FOEp = NULL, worktodo = False, dofinalzero = False\<rparr>"

subsection \<open>The request, common to both functions\<close>

text \<open>
  Lines 86-116 with \<open>op = ECT_FOE_READ\<close> and lines 226-257 with \<open>op = ECT_FOE_WRITE\<close>
  are the same statements (but for line 233, which sets \<open>dofinalzero\<close> and is found in
  \<open>ecx_FOEwrite\<close> below): empty the slave's out mailbox with timeout 0, get a buffer,
  clamp the length of the file name, fill the request in, send it and forget the
  buffer.
\<close>

definition foe_request ::
  "uint8 \<Rightarrow> uint16 \<Rightarrow> uint8 list \<Rightarrow> uint32 \<Rightarrow> foe_locals \<Rightarrow> foe_locals" where
  "foe_request op slave filename password s0 =
     (let s1 = s0\<lparr>MbxIn := NULL, MbxOut := NULL\<rparr>;
          (w, mi, c1) = ecx_mbxreceive (ctx s1) slave (MbxIn s1) 0;
          s2 = s1\<lparr>wkc := w, MbxIn := mi, ctx := c1\<rparr>;
          (mo, c2) = ecx_getmbx (ctx s2);
          s3 = s2\<lparr>MbxOut := mo, ctx := store mo (\<lambda>_. ec_clearmbx) c2\<rparr>;
          s4 = s3\<lparr>FOEp := MbxOut s3\<rparr>;
          fnsize0 = (word_of_nat (length filename) :: uint16);
          fnsize1 = (if unat fnsize0 > EC_MAXFOEDATA then word_of_nat EC_MAXFOEDATA else fnsize0);
          s5 = s4\<lparr>maxdata := mbx_l (ctx s4) - 12\<rparr>;
          fnsize = (if fnsize1 > maxdata s5 then maxdata s5 else fnsize1);
          cnt = ec_nextmbxcnt (mbx_cnt (ctx s5));
          c3 = (ctx s5)\<lparr>mbx_cnt := cnt\<rparr>;
          c4 = store (FOEp s5) (\<lambda>f. f
                 \<lparr>MbxHeader :=
                    \<lparr>length_mbx = htoes (0x0006 + fnsize), address = htoes 0x0000,
                     priority = 0x00, mbxtype = ECT_MBXT_FOE + MBX_HDR_SET_CNT cnt\<rparr>,
                  OpCode := op,
                  PacketNumber := htoel password,
                  Data := memcpy (Data f) filename (unat fnsize)\<rparr>) c3;
          (w', c5) = ecx_mbxsend c4 slave (MbxOut s5)
      in s5\<lparr>wkc := w', MbxOut := NULL, ctx := c5\<rparr>)"

subsection \<open>\<^verbatim>\<open>ecx_FOEread\<close>\<close>

text \<open>
  Lines 138-167: the segment is accepted. Copy it to the caller, decide whether more
  is to come, acknowledge, call the hook.
\<close>

definition FOEread_accept ::
  "uint16 \<Rightarrow> uint16 \<Rightarrow> int \<Rightarrow> ec_FOEt \<Rightarrow> foe_locals \<Rightarrow> foe_locals" where
  "FOEread_accept slave segmentdata16 packetnumber aFOEp s0 =
     (let s1 = s0\<lparr>p_mem := take (nat (p s0)) (p_mem s0) @
                     memcpy (drop (nat (p s0)) (p_mem s0)) (Data aFOEp) (unat segmentdata16),
                   ctx := log_event (E_memcpy (p s0) (unat segmentdata16)) (ctx s0)\<rparr>;
          s2 = s1\<lparr>dataread := dataread s1 + uint segmentdata16\<rparr>;
          s3 = s2\<lparr>p := p s2 + uint segmentdata16\<rparr>;
          s4 = s3\<lparr>worktodo := (if segmentdata16 = maxdata s3 then True else worktodo s3)\<rparr>;
          (mo, c1) = ecx_getmbx (ctx s4);
          s5 = s4\<lparr>MbxOut := mo, ctx := store mo (\<lambda>_. ec_clearmbx) c1\<rparr>;
          s6 = s5\<lparr>FOEp := MbxOut s5\<rparr>;
          cnt = ec_nextmbxcnt (mbx_cnt (ctx s6));
          c2 = (ctx s6)\<lparr>mbx_cnt := cnt\<rparr>;
          c3 = store (FOEp s6) (\<lambda>f. f
                 \<lparr>MbxHeader :=
                    \<lparr>length_mbx = htoes 0x0006, address = htoes 0x0000,
                     priority = 0x00, mbxtype = ECT_MBXT_FOE + MBX_HDR_SET_CNT cnt\<rparr>,
                  OpCode := ECT_FOE_ACK,
                  PacketNumber := htoel (word_of_int packetnumber)\<rparr>) c2;
          (w, c4) = ecx_mbxsend c3 slave (MbxOut s6);
          s7 = s6\<lparr>wkc := w, MbxOut := NULL, ctx := c4\<rparr>;
          s8 = s7\<lparr>worktodo := (if wkc s7 \<le> 0 then False else worktodo s7)\<rparr>
      in s8\<lparr>ctx := FOEhook_call slave packetnumber (dataread s8) (ctx s8)\<rparr>)"

text \<open>
  Lines 121-125 and 262-266, the head of either loop body: clear \<^verbatim>\<open>worktodo\<close>, drop
  the previous response, read the next one.
\<close>

definition foe_receive :: "uint16 \<Rightarrow> int \<Rightarrow> foe_locals \<Rightarrow> foe_locals" where
  "foe_receive slave timeout s0 =
     (let s1 = s0\<lparr>worktodo := False\<rparr>;
          s2 = s1\<lparr>ctx := (if MbxIn s1 \<noteq> NULL
                          then ecx_dropmbx (ctx s1) (MbxIn s1) else ctx s1)\<rparr>;
          s3 = s2\<lparr>MbxIn := NULL\<rparr>;
          (w, mi, c) = ecx_mbxreceive (ctx s3) slave (MbxIn s3) timeout
      in s3\<lparr>wkc := w, MbxIn := mi, ctx := c\<rparr>)"

text \<open>Lines 128-194: a response has arrived (\<^verbatim>\<open>wkc > 0\<close>).\<close>

definition FOEread_response :: "uint16 \<Rightarrow> foe_locals \<Rightarrow> foe_locals" where
  "FOEread_response slave s4 =
     (let aFOEp = deref (ctx s4) (MbxIn s4);
          s5 =
            (if mbxtype (MbxHeader aFOEp) AND 0x0f = ECT_MBXT_FOE then
               if OpCode aFOEp = ECT_FOE_DATA then
                 (let segmentdata16 = etohs (length_mbx (MbxHeader aFOEp)) - 0x0006;
                      packetnumber = sint (etohl (PacketNumber aFOEp));
                      s6 = s4\<lparr>prevpacket := prevpacket s4 + 1\<rparr>
                  in if packetnumber = prevpacket s6 \<and>
                        dataread s6 + uint segmentdata16 \<le> buffersize s6
                     then FOEread_accept slave segmentdata16 packetnumber aFOEp s6
                     else s6\<lparr>wkc := - EC_ERR_TYPE_FOE_BUF2SMALL\<rparr>)
               else if OpCode aFOEp = ECT_FOE_ERROR
                 then s4\<lparr>wkc := - EC_ERR_TYPE_FOE_ERROR\<rparr>
                 else s4\<lparr>wkc := - EC_ERR_TYPE_PACKET_ERROR\<rparr>
             else s4\<lparr>wkc := - EC_ERR_TYPE_PACKET_ERROR\<rparr>)
      in s5\<lparr>psize := dataread s5\<rparr>)"

text \<open>Lines 121-195: one turn of the \<^verbatim>\<open>do ... while (worktodo)\<close> loop.\<close>

definition FOEread_body :: "uint16 \<Rightarrow> int \<Rightarrow> foe_locals \<Rightarrow> foe_locals" where
  "FOEread_body slave timeout s0 =
     (let s4 = foe_receive slave timeout s0
      in if wkc s4 > 0 then FOEread_response slave s4 else s4)"

text \<open>Lines 198-199 and 409-410: drop what is still held.\<close>

definition foe_cleanup :: "foe_locals \<Rightarrow> foe_locals" where
  "foe_cleanup s0 =
     (let s1 = s0\<lparr>ctx := (if MbxIn s0 \<noteq> NULL
                          then ecx_dropmbx (ctx s0) (MbxIn s0) else ctx s0)\<rparr>
      in s1\<lparr>ctx := (if MbxOut s1 \<noteq> NULL
                     then ecx_dropmbx (ctx s1) (MbxOut s1) else ctx s1)\<rparr>)"

subsection \<open>\<^verbatim>\<open>ecx_FOEwrite\<close>\<close>

text \<open>
  Lines 284-288 and 341-345: \<^verbatim>\<open>tsize = psize; if (tsize > maxdata) tsize = maxdata;\<close>
\<close>

definition tsize_of :: "int \<Rightarrow> uint16 \<Rightarrow> int" where
  "tsize_of sz md = (if sz > uint md then uint md else sz)"

text \<open>
  Lines 277-329, \<^verbatim>\<open>case ECT_FOE_ACK\<close>: check the packet number, call the hook, cut
  the next segment, build the DATA packet in a fresh buffer and send it.
\<close>

definition FOEwrite_ack :: "uint16 \<Rightarrow> ec_FOEt \<Rightarrow> foe_locals \<Rightarrow> foe_locals" where
  "FOEwrite_ack slave aFOEp s0 =
     (let packetnumber = sint (etohl (PacketNumber aFOEp))
      in if packetnumber = sendpacket s0 then
           (let s1 = s0\<lparr>ctx := FOEhook_call slave packetnumber (psize s0) (ctx s0)\<rparr>;
                tsize = tsize_of (psize s1) (maxdata s1)
            in if tsize \<noteq> 0 \<or> dofinalzero s1 then
                 (let s2 = s1\<lparr>worktodo := True, dofinalzero := False, segmentdata := tsize\<rparr>;
                      s3 = s2\<lparr>psize := psize s2 - segmentdata s2\<rparr>;
                      s4 = s3\<lparr>dofinalzero :=
                                (if psize s3 = 0 \<and> segmentdata s3 = uint (maxdata s3)
                                 then True else dofinalzero s3)\<rparr>;
                      (mo, c1) = ecx_getmbx (ctx s4);
                      s5 = s4\<lparr>MbxOut := mo, ctx := store mo (\<lambda>_. ec_clearmbx) c1\<rparr>;
                      s6 = s5\<lparr>FOEp := MbxOut s5\<rparr>;
                      cnt = ec_nextmbxcnt (mbx_cnt (ctx s6));
                      c2 = (ctx s6)\<lparr>mbx_cnt := cnt\<rparr>;
                      s7 = s6\<lparr>sendpacket := sendpacket s6 + 1\<rparr>;
                      c3 = store (FOEp s7) (\<lambda>f. f
                             \<lparr>MbxHeader :=
                                \<lparr>length_mbx = htoes (word_of_int (0x0006 + segmentdata s7)),
                                 address = htoes 0x0000, priority = 0x00,
                                 mbxtype = ECT_MBXT_FOE + MBX_HDR_SET_CNT cnt\<rparr>,
                              OpCode := ECT_FOE_DATA,
                              PacketNumber := htoel (word_of_int (sendpacket s7)),
                              Data := memcpy (Data f) (drop (nat (p s7)) (p_mem s7))
                                        (nat (segmentdata s7))\<rparr>) c2;
                      s8 = s7\<lparr>p := p s7 + segmentdata s7\<rparr>;
                      (w, c4) = ecx_mbxsend c3 slave (MbxOut s8);
                      s9 = s8\<lparr>wkc := w, MbxOut := NULL, ctx := c4\<rparr>
                  in s9\<lparr>worktodo := (if wkc s9 \<le> 0 then False else worktodo s9)\<rparr>)
               else s1)
         else s0\<lparr>wkc := - EC_ERR_TYPE_FOE_PACKETNUMBER\<rparr>)"

text \<open>
  Lines 334-377, \<^verbatim>\<open>case ECT_FOE_BUSY\<close>: if data has been sent before, step back one
  segment and build the DATA packet again. No buffer is acquired here: the packet is
  written through \<^verbatim>\<open>FOEp\<close>, which still points to the buffer of the previous send,
  and line 371 passes \<^verbatim>\<open>(ec_mbxbuft *)&MbxOut\<close> to \<^verbatim>\<open>ecx_mbxsend\<close>.
\<close>

definition FOEwrite_busy :: "uint16 \<Rightarrow> foe_locals \<Rightarrow> foe_locals" where
  "FOEwrite_busy slave s0 =
     (if sendpacket s0 \<noteq> 0 then
        (let s1 = s0\<lparr>psize := psize s0 + segmentdata s0\<rparr>;
             s2 = s1\<lparr>p := p s1 - segmentdata s1\<rparr>;
             s3 = s2\<lparr>sendpacket := sendpacket s2 - 1\<rparr>;
             tsize = tsize_of (psize s3) (maxdata s3)
         in if tsize \<noteq> 0 \<or> dofinalzero s3 then
              (let s4 = s3\<lparr>worktodo := True, dofinalzero := False, segmentdata := tsize\<rparr>;
                   s5 = s4\<lparr>psize := psize s4 - segmentdata s4\<rparr>;
                   s6 = s5\<lparr>dofinalzero :=
                             (if psize s5 = 0 \<and> segmentdata s5 = uint (maxdata s5)
                              then True else dofinalzero s5)\<rparr>;
                   cnt = ec_nextmbxcnt (mbx_cnt (ctx s6));
                   c2 = (ctx s6)\<lparr>mbx_cnt := cnt\<rparr>;
                   s7 = s6\<lparr>sendpacket := sendpacket s6 + 1\<rparr>;
                   c3 = store (FOEp s7) (\<lambda>f. f
                          \<lparr>MbxHeader :=
                             \<lparr>length_mbx = htoes (word_of_int (0x0006 + segmentdata s7)),
                              address = htoes 0x0000, priority = 0x00,
                              mbxtype = ECT_MBXT_FOE + MBX_HDR_SET_CNT cnt\<rparr>,
                           OpCode := ECT_FOE_DATA,
                           PacketNumber := htoel (word_of_int (sendpacket s7)),
                           Data := memcpy (Data f) (drop (nat (p s7)) (p_mem s7))
                                     (nat (segmentdata s7))\<rparr>) c2;
                   s8 = s7\<lparr>p := p s7 + segmentdata s7\<rparr>;
                   (w, c4) = ecx_mbxsend c3 slave AddrOf_MbxOut;
                   s9 = s8\<lparr>wkc := w, ctx := c4\<rparr>
               in s9\<lparr>worktodo := (if wkc s9 \<le> 0 then False else worktodo s9)\<rparr>)
            else s3)
      else s0)"

text \<open>Lines 269-405: a response has arrived (\<^verbatim>\<open>wkc > 0\<close>).\<close>

definition FOEwrite_response :: "uint16 \<Rightarrow> foe_locals \<Rightarrow> foe_locals" where
  "FOEwrite_response slave s4 =
     (let aFOEp = deref (ctx s4) (MbxIn s4)
      in if mbxtype (MbxHeader aFOEp) AND 0x0f = ECT_MBXT_FOE then
           if OpCode aFOEp = ECT_FOE_ACK then FOEwrite_ack slave aFOEp s4
           else if OpCode aFOEp = ECT_FOE_BUSY then FOEwrite_busy slave s4
           else if OpCode aFOEp = ECT_FOE_ERROR then
             (if ErrorCode aFOEp = 0x8001
              then s4\<lparr>wkc := - EC_ERR_TYPE_FOE_FILE_NOTFOUND\<rparr>
              else s4\<lparr>wkc := - EC_ERR_TYPE_FOE_ERROR\<rparr>)
           else s4\<lparr>wkc := - EC_ERR_TYPE_PACKET_ERROR\<rparr>
         else s4\<lparr>wkc := - EC_ERR_TYPE_PACKET_ERROR\<rparr>)"

text \<open>Lines 262-406: one turn of the \<^verbatim>\<open>do ... while (worktodo)\<close> loop.\<close>

definition FOEwrite_body :: "uint16 \<Rightarrow> int \<Rightarrow> foe_locals \<Rightarrow> foe_locals" where
  "FOEwrite_body slave timeout s0 =
     (let s4 = foe_receive slave timeout s0
      in if wkc s4 > 0 then FOEwrite_response slave s4 else s4)"

section \<open>The states the blocks produce\<close>

text \<open>
  Each block above is a chain of assignments. The lemmas of this section give the state
  a block ends in as one record update of the state it starts from; the proofs below
  use these equations instead of the chains.
\<close>

lemmas mbx_prims =
  log_event_def store_def load_def deref_def ecx_getmbx_def ecx_mbxsend_def ecx_dropmbx_def

lemma rxscript_log_event [simp]: "rxscript (log_event e c) = rxscript c"
  by (simp add: log_event_def)

lemma rxscript_dropmbx [simp]: "rxscript (ecx_dropmbx c q) = rxscript c"
  by (simp add: ecx_dropmbx_def)

definition dropped_in :: "foe_locals \<Rightarrow> ecx_contextt" where
  "dropped_in s = (if MbxIn s \<noteq> NULL then ecx_dropmbx (ctx s) (MbxIn s) else ctx s)"

lemma foe_receive_Nil:
  "rxscript (ctx s) = [] \<Longrightarrow>
   foe_receive slave t s = s\<lparr>worktodo := False, MbxIn := NULL, wkc := 0, ctx := dropped_in s\<rparr>"
  by (simp add: foe_receive_def ecx_mbxreceive_def dropped_in_def Let_def cong: let_weak_cong)

lemma foe_receive_fail:
  "rxscript (ctx s) = (w, f) # rest \<Longrightarrow> \<not> 0 < w \<Longrightarrow>
   foe_receive slave t s =
     s\<lparr>worktodo := False, MbxIn := NULL, wkc := w, ctx := (dropped_in s)\<lparr>rxscript := rest\<rparr>\<rparr>"
  by (simp add: foe_receive_def ecx_mbxreceive_def dropped_in_def Let_def cong: let_weak_cong)

definition received :: "int \<Rightarrow> ec_FOEt \<Rightarrow> (int \<times> ec_FOEt) list \<Rightarrow> foe_locals \<Rightarrow> foe_locals" where
  "received w f rest s =
     s\<lparr>worktodo := False, MbxIn := Mbx (mbxnext (ctx s)), wkc := w,
       ctx := (dropped_in s)
         \<lparr>rxscript := rest,
          mbxmem := (mbxmem (ctx s))(mbxnext (ctx s) := f),
          mbxnext := Suc (mbxnext (ctx s)),
          trace := trace (dropped_in s) @ [E_mbxreceive (mbxnext (ctx s))]\<rparr>\<rparr>"

lemma foe_receive_ok:
  "rxscript (ctx s) = (w, f) # rest \<Longrightarrow> 0 < w \<Longrightarrow>
   foe_receive slave t s = received w f rest s"
  by (simp add: foe_receive_def ecx_mbxreceive_def dropped_in_def received_def Let_def
      mbx_prims cong: let_weak_cong)

lemma deref_received: "deref (ctx (received w f rest s)) (MbxIn (received w f rest s)) = f"
  by (simp add: received_def deref_def)

lemma foe_receive_shrinks:
  assumes "0 < wkc (foe_receive slave t s)"
  shows "length (rxscript (ctx (foe_receive slave t s))) < length (rxscript (ctx s))"
proof (cases "rxscript (ctx s)")
  case Nil
  then show ?thesis using assms by (simp add: foe_receive_Nil)
next
  case (Cons wf rest)
  obtain w f where wf: "wf = (w, f)" by (cases wf)
  show ?thesis
  proof (cases "0 < w")
    case True
    then show ?thesis using Cons wf by (simp add: foe_receive_ok received_def)
  next
    case False
    then show ?thesis using Cons wf by (simp add: foe_receive_fail)
  qed
qed

lemma worktodo_foe_receive: "\<not> worktodo (foe_receive slave t s)"
  by (simp add: foe_receive_def Let_def split_beta)

lemma ecx_mbxsend_eq:
  "ecx_mbxsend c slave q =
     (next_wkc (txscript c),
      c\<lparr>txscript := tl (txscript c),
        trace := trace c @ [E_mbxsend q (load c q) (next_wkc (txscript c))]\<rparr>)"
  by (simp add: ecx_mbxsend_def log_event_def)

lemma ecx_getmbx_eq:
  "ecx_getmbx c =
     (Mbx (mbxnext c), c\<lparr>mbxnext := Suc (mbxnext c), trace := trace c @ [E_getmbx (mbxnext c)]\<rparr>)"
  by (simp add: ecx_getmbx_def log_event_def)

lemma store_Mbx: "store (Mbx n) f c = c\<lparr>mbxmem := (mbxmem c)(n := f (mbxmem c n))\<rparr>"
  by (simp add: store_def)

lemma load_Mbx: "load c (Mbx n) = Some (mbxmem c n)"
  by (simp add: load_def)

lemma FOEhook_call_simps [simp]:
  "mbx_l (FOEhook_call slave n sz c) = mbx_l c"
  "mbx_cnt (FOEhook_call slave n sz c) = mbx_cnt c"
  "FOEhook (FOEhook_call slave n sz c) = FOEhook c"
  "mbxmem (FOEhook_call slave n sz c) = mbxmem c"
  "mbxnext (FOEhook_call slave n sz c) = mbxnext c"
  "rxscript (FOEhook_call slave n sz c) = rxscript c"
  "txscript (FOEhook_call slave n sz c) = txscript c"
  by (simp_all add: FOEhook_call_def log_event_def)

definition foe_packet ::
  "ec_FOEt \<Rightarrow> uint16 \<Rightarrow> uint8 \<Rightarrow> uint8 \<Rightarrow> uint32 \<Rightarrow> uint8 list \<Rightarrow> ec_FOEt" where
  "foe_packet old len cnt op num dat =
     old\<lparr>MbxHeader :=
           \<lparr>length_mbx = len, address = 0, priority = 0,
            mbxtype = ECT_MBXT_FOE + MBX_HDR_SET_CNT cnt\<rparr>,
         OpCode := op, PacketNumber := num, Data := dat\<rparr>"

definition data_packet :: "ec_FOEt \<Rightarrow> foe_locals \<Rightarrow> ec_FOEt" where
  "data_packet old s =
     foe_packet old (word_of_int (6 + tsize_of (psize s) (maxdata s)))
       (ec_nextmbxcnt (mbx_cnt (ctx s))) ECT_FOE_DATA
       (word_of_int (sendpacket s + 1))
       (memcpy (Data old) (drop (nat (p s)) (p_mem s)) (nat (tsize_of (psize s) (maxdata s))))"

definition ack_sent :: "uint16 \<Rightarrow> foe_locals \<Rightarrow> foe_locals" where
  "ack_sent slave s =
     s\<lparr>worktodo := 0 < next_wkc (txscript (ctx s)),
       dofinalzero := (psize s - tsize_of (psize s) (maxdata s) = 0 \<and> tsize_of (psize s) (maxdata s) = uint (maxdata s)),
       segmentdata := tsize_of (psize s) (maxdata s),
       psize := psize s - tsize_of (psize s) (maxdata s),
       MbxOut := NULL,
       FOEp := Mbx (mbxnext (ctx s)),
       sendpacket := sendpacket s + 1,
       p := p s + tsize_of (psize s) (maxdata s),
       wkc := next_wkc (txscript (ctx s)),
       ctx := (FOEhook_call slave (sendpacket s) (psize s) (ctx s))
         \<lparr>mbx_cnt := ec_nextmbxcnt (mbx_cnt (ctx s)),
          mbxmem := (mbxmem (ctx s))(mbxnext (ctx s) := data_packet ec_clearmbx s),
          mbxnext := Suc (mbxnext (ctx s)),
          txscript := tl (txscript (ctx s)),
          trace := trace (FOEhook_call slave (sendpacket s) (psize s) (ctx s)) @
            [E_getmbx (mbxnext (ctx s)),
             E_mbxsend (Mbx (mbxnext (ctx s))) (Some (data_packet ec_clearmbx s))
               (next_wkc (txscript (ctx s)))]\<rparr>\<rparr>"

lemmas mbx_eqs = ecx_mbxsend_eq ecx_getmbx_eq store_Mbx load_Mbx

lemma FOEwrite_ack_eq:
  "FOEwrite_ack slave a s =
     (if sint (PacketNumber a) = sendpacket s then
        if tsize_of (psize s) (maxdata s) \<noteq> 0 \<or> dofinalzero s then ack_sent slave s
        else s\<lparr>ctx := FOEhook_call slave (sendpacket s) (psize s) (ctx s)\<rparr>
      else s\<lparr>wkc := - EC_ERR_TYPE_FOE_PACKETNUMBER\<rparr>)"
  unfolding ack_sent_def
  by (simp add: FOEwrite_ack_def Let_def etohl_def htoel_def htoes_def
      mbx_eqs data_packet_def foe_packet_def cong: let_weak_cong)


definition rewound :: "foe_locals \<Rightarrow> foe_locals" where
  "rewound s =
     s\<lparr>psize := psize s + segmentdata s, p := p s - segmentdata s,
       sendpacket := sendpacket s - 1\<rparr>"

definition busy_sent :: "foe_locals \<Rightarrow> foe_locals" where
  "busy_sent r =
     r\<lparr>worktodo := 0 < next_wkc (txscript (ctx r)),
       dofinalzero := (psize r - tsize_of (psize r) (maxdata r) = 0 \<and>
                       tsize_of (psize r) (maxdata r) = uint (maxdata r)),
       segmentdata := tsize_of (psize r) (maxdata r),
       psize := psize r - tsize_of (psize r) (maxdata r),
       sendpacket := sendpacket r + 1,
       p := p r + tsize_of (psize r) (maxdata r),
       wkc := next_wkc (txscript (ctx r)),
       ctx := (store (FOEp r) (\<lambda>f. data_packet f r) (ctx r))
         \<lparr>mbx_cnt := ec_nextmbxcnt (mbx_cnt (ctx r)),
          txscript := tl (txscript (ctx r)),
          trace := trace (ctx r) @
            [E_mbxsend AddrOf_MbxOut None (next_wkc (txscript (ctx r)))]\<rparr>\<rparr>"

lemma FOEwrite_busy_eq:
  "FOEwrite_busy slave s =
     (if sendpacket s \<noteq> 0 then
        if tsize_of (psize (rewound s)) (maxdata (rewound s)) \<noteq> 0 \<or> dofinalzero (rewound s)
        then busy_sent (rewound s) else rewound s
      else s)"
  unfolding busy_sent_def rewound_def
  by (simp add: FOEwrite_busy_def Let_def etohl_def htoel_def htoes_def
      ecx_mbxsend_eq load_def store_def data_packet_def foe_packet_def
      split: ptr.splits cong: let_weak_cong)

definition ack_packet :: "uint8 \<Rightarrow> int \<Rightarrow> ec_FOEt" where
  "ack_packet cnt n =
     foe_packet ec_clearmbx 6 cnt ECT_FOE_ACK (word_of_int n) (Data ec_clearmbx)"

definition read_accepted :: "uint16 \<Rightarrow> uint16 \<Rightarrow> int \<Rightarrow> ec_FOEt \<Rightarrow> foe_locals \<Rightarrow> foe_locals" where
  "read_accepted slave seg n a s =
     s\<lparr>p_mem := take (nat (p s)) (p_mem s) @
                 memcpy (drop (nat (p s)) (p_mem s)) (Data a) (unat seg),
       dataread := dataread s + uint seg,
       p := p s + uint seg,
       worktodo := (seg = maxdata s \<or> worktodo s) \<and> 0 < next_wkc (txscript (ctx s)),
       MbxOut := NULL, FOEp := Mbx (mbxnext (ctx s)),
       wkc := next_wkc (txscript (ctx s)),
       ctx := (ctx s)
         \<lparr>mbx_cnt := ec_nextmbxcnt (mbx_cnt (ctx s)),
          mbxmem := (mbxmem (ctx s))
             (mbxnext (ctx s) := ack_packet (ec_nextmbxcnt (mbx_cnt (ctx s))) n),
          mbxnext := Suc (mbxnext (ctx s)),
          txscript := tl (txscript (ctx s)),
          trace := trace (ctx s) @
            [E_memcpy (p s) (unat seg), E_getmbx (mbxnext (ctx s)),
             E_mbxsend (Mbx (mbxnext (ctx s)))
               (Some (ack_packet (ec_nextmbxcnt (mbx_cnt (ctx s))) n))
               (next_wkc (txscript (ctx s)))] @
            (if FOEhook (ctx s) then [E_FOEhook slave n (dataread s + uint seg)] else [])\<rparr>\<rparr>"

lemma FOEread_accept_eq: "FOEread_accept slave seg n a s = read_accepted slave seg n a s"
  unfolding read_accepted_def
  by (simp add: FOEread_accept_def Let_def htoel_def htoes_def mbx_eqs log_event_def
      FOEhook_call_def ack_packet_def foe_packet_def cong: let_weak_cong)

text \<open>The request of either function.\<close>

definition fnsize_of :: "uint8 list \<Rightarrow> uint16 \<Rightarrow> uint16" where
  "fnsize_of filename md =
     (let fnsize0 = (word_of_nat (length filename) :: uint16);
          fnsize1 = (if unat fnsize0 > EC_MAXFOEDATA then word_of_nat EC_MAXFOEDATA else fnsize0)
      in if fnsize1 > md then md else fnsize1)"

definition request_packet :: "uint8 \<Rightarrow> uint8 list \<Rightarrow> uint32 \<Rightarrow> ecx_contextt \<Rightarrow> ec_FOEt" where
  "request_packet op filename password c =
     foe_packet ec_clearmbx (6 + fnsize_of filename (mbx_l c - 12)) (ec_nextmbxcnt (mbx_cnt c))
       op password
       (memcpy (Data ec_clearmbx) filename (unat (fnsize_of filename (mbx_l c - 12))))"

definition requested :: "uint8 \<Rightarrow> uint8 list \<Rightarrow> uint32 \<Rightarrow> ptr \<Rightarrow> ecx_contextt \<Rightarrow> foe_locals \<Rightarrow> foe_locals" where
  "requested op filename password mi c s =
     s\<lparr>MbxIn := mi, MbxOut := NULL, FOEp := Mbx (mbxnext c),
       maxdata := mbx_l c - 12,
       wkc := next_wkc (txscript c),
       ctx := c
         \<lparr>mbx_cnt := ec_nextmbxcnt (mbx_cnt c),
          mbxmem := (mbxmem c)(mbxnext c := request_packet op filename password c),
          mbxnext := Suc (mbxnext c),
          txscript := tl (txscript c),
          trace := trace c @
            [E_getmbx (mbxnext c),
             E_mbxsend (Mbx (mbxnext c)) (Some (request_packet op filename password c))
               (next_wkc (txscript c))]\<rparr>\<rparr>"

lemma foe_request_eq:
  "foe_request op slave filename password s =
     requested op filename password
       (fst (snd (ecx_mbxreceive (ctx s) slave NULL 0)))
       (snd (snd (ecx_mbxreceive (ctx s) slave NULL 0))) s"
  unfolding requested_def
  by (simp add: foe_request_def Let_def split_beta htoel_def htoes_def mbx_eqs
      request_packet_def fnsize_of_def foe_packet_def cong: let_weak_cong)

lemma rxscript_store [simp]: "rxscript (store q f c) = rxscript c"
  by (simp add: store_def split: ptr.splits)

lemma rxscript_FOEread_response:
  "rxscript (ctx (FOEread_response slave s)) = rxscript (ctx s)"
  by (simp add: FOEread_response_def Let_def FOEread_accept_eq read_accepted_def)

lemma rxscript_FOEwrite_response:
  "rxscript (ctx (FOEwrite_response slave s)) = rxscript (ctx s)"
  by (simp add: FOEwrite_response_def Let_def FOEwrite_ack_eq FOEwrite_busy_eq
      ack_sent_def busy_sent_def rewound_def)

lemma FOEread_body_shrinks:
  assumes "worktodo (FOEread_body slave t s)"
  shows "length (rxscript (ctx (FOEread_body slave t s))) < length (rxscript (ctx s))"
proof (cases "0 < wkc (foe_receive slave t s)")
  case True
  then show ?thesis
    by (simp add: FOEread_body_def Let_def rxscript_FOEread_response foe_receive_shrinks)
next
  case False
  then show ?thesis
    using assms by (simp add: FOEread_body_def Let_def worktodo_foe_receive)
qed

lemma FOEwrite_body_shrinks:
  assumes "worktodo (FOEwrite_body slave t s)"
  shows "length (rxscript (ctx (FOEwrite_body slave t s))) < length (rxscript (ctx s))"
proof (cases "0 < wkc (foe_receive slave t s)")
  case True
  then show ?thesis
    by (simp add: FOEwrite_body_def Let_def rxscript_FOEwrite_response foe_receive_shrinks)
next
  case False
  then show ?thesis
    using assms by (simp add: FOEwrite_body_def Let_def worktodo_foe_receive)
qed

section \<open>The loops and the two functions\<close>

text \<open>
  A turn of either loop that asks for another turn has consumed an entry of the receive
  script, so both loops terminate.
\<close>

function FOEread_loop :: "uint16 \<Rightarrow> int \<Rightarrow> foe_locals \<Rightarrow> foe_locals" where
  "FOEread_loop slave timeout s =
     (let s' = FOEread_body slave timeout s
      in if worktodo s' then FOEread_loop slave timeout s' else s')"
  by pat_completeness auto
termination
proof (relation "measure (\<lambda>(slave, timeout, s). length (rxscript (ctx s)))")
  show "wf (measure (\<lambda>(slave, timeout, s). length (rxscript (ctx s))))"
    by (rule wf_measure)
next
  fix slave :: uint16 and timeout :: int and s x :: foe_locals
  assume "x = FOEread_body slave timeout s" and "worktodo x"
  then have "length (rxscript (ctx x)) < length (rxscript (ctx s))"
    using FOEread_body_shrinks [of slave timeout s] by blast
  then show "((slave, timeout, x), slave, timeout, s)
      \<in> measure (\<lambda>(slave, timeout, s). length (rxscript (ctx s)))"
    by (simp only: in_measure prod.case)
qed

declare FOEread_loop.simps [simp del]

function FOEwrite_loop :: "uint16 \<Rightarrow> int \<Rightarrow> foe_locals \<Rightarrow> foe_locals" where
  "FOEwrite_loop slave timeout s =
     (let s' = FOEwrite_body slave timeout s
      in if worktodo s' then FOEwrite_loop slave timeout s' else s')"
  by pat_completeness auto
termination
proof (relation "measure (\<lambda>(slave, timeout, s). length (rxscript (ctx s)))")
  show "wf (measure (\<lambda>(slave, timeout, s). length (rxscript (ctx s))))"
    by (rule wf_measure)
next
  fix slave :: uint16 and timeout :: int and s x :: foe_locals
  assume "x = FOEwrite_body slave timeout s" and "worktodo x"
  then have "length (rxscript (ctx x)) < length (rxscript (ctx s))"
    using FOEwrite_body_shrinks [of slave timeout s] by blast
  then show "((slave, timeout, x), slave, timeout, s)
      \<in> measure (\<lambda>(slave, timeout, s). length (rxscript (ctx s)))"
    by (simp only: in_measure prod.case)
qed

declare FOEwrite_loop.simps [simp del]

definition ecx_FOEread ::
  "ecx_contextt \<Rightarrow> uint16 \<Rightarrow> uint8 list \<Rightarrow> uint32 \<Rightarrow> int \<Rightarrow> uint8 list \<Rightarrow> int \<Rightarrow> foe_locals" where
  "ecx_FOEread c slave filename password sz buf timeout =
     (let s0 = foe_entry c sz buf;
          s1 = s0\<lparr>buffersize := psize s0\<rparr>;
          s2 = foe_request ECT_FOE_READ slave filename password s1;
          s3 = (if wkc s2 > 0 then FOEread_loop slave timeout s2 else s2)
      in foe_cleanup s3)"

definition ecx_FOEwrite ::
  "ecx_contextt \<Rightarrow> uint16 \<Rightarrow> uint8 list \<Rightarrow> uint32 \<Rightarrow> int \<Rightarrow> uint8 list \<Rightarrow> int \<Rightarrow> foe_locals" where
  "ecx_FOEwrite c slave filename password sz buf timeout =
     (let s0 = foe_entry c sz buf;
          s1 = s0\<lparr>dofinalzero := True\<rparr>;
          s2 = foe_request ECT_FOE_WRITE slave filename password s1;
          s3 = (if wkc s2 > 0 then FOEwrite_loop slave timeout s2 else s2)
      in foe_cleanup s3)"

section \<open>Turns of the loops\<close>

text \<open>The packets sent, as the trace records them.\<close>

fun is_send :: "event \<Rightarrow> bool" where
  "is_send (E_mbxsend q pkt w) = True"
| "is_send e = False"

definition sends :: "foe_locals \<Rightarrow> event list" where
  "sends s = filter is_send (trace (ctx s))"

text \<open>A turn after a response, the last turn, and what the cleanup keeps.\<close>

lemma FOEwrite_loop_stop:
  "\<not> worktodo (FOEwrite_body slave t s) \<Longrightarrow> FOEwrite_loop slave t s = FOEwrite_body slave t s"
  by (subst FOEwrite_loop.simps) (simp add: Let_def)

lemma FOEwrite_loop_go:
  "worktodo (FOEwrite_body slave t s) \<Longrightarrow>
   FOEwrite_loop slave t s = FOEwrite_loop slave t (FOEwrite_body slave t s)"
  by (subst FOEwrite_loop.simps) (simp add: Let_def)

lemma cleanup_fields:
  "wkc (foe_cleanup s) = wkc s"
  "psize (foe_cleanup s) = psize s"
  "p_mem (foe_cleanup s) = p_mem s"
  "dataread (foe_cleanup s) = dataread s"
  "rxscript (ctx (foe_cleanup s)) = rxscript (ctx s)"
  "txscript (ctx (foe_cleanup s)) = txscript (ctx s)"
  "mbx_cnt (ctx (foe_cleanup s)) = mbx_cnt (ctx s)"
  "sends (foe_cleanup s) = sends s"
  by (simp_all add: foe_cleanup_def Let_def ecx_dropmbx_def log_event_def sends_def)

lemma FOEwrite_body_ok:
  "rxscript (ctx s) = (w, f) # rest \<Longrightarrow> 0 < w \<Longrightarrow>
   FOEwrite_body slave t s = FOEwrite_response slave (received w f rest s)"
  by (simp add: FOEwrite_body_def Let_def foe_receive_ok) (simp add: received_def)

lemma FOEread_body_ok:
  "rxscript (ctx s) = (w, f) # rest \<Longrightarrow> 0 < w \<Longrightarrow>
   FOEread_body slave t s = FOEread_response slave (received w f rest s)"
  by (simp add: FOEread_body_def Let_def foe_receive_ok) (simp add: received_def)

lemma FOEread_loop_stop:
  "\<not> worktodo (FOEread_body slave t s) \<Longrightarrow> FOEread_loop slave t s = FOEread_body slave t s"
  by (subst FOEread_loop.simps) (simp add: Let_def)

lemma FOEread_loop_go:
  "worktodo (FOEread_body slave t s) \<Longrightarrow>
   FOEread_loop slave t s = FOEread_loop slave t (FOEread_body slave t s)"
  by (subst FOEread_loop.simps) (simp add: Let_def)

section \<open>Scripted slaves\<close>

text \<open>
  A frame as a slave sends it, a master context with an empty trace and the hook
  installed, and the outcome of the first receive (timeout 0) when nothing is pending.
\<close>

definition slave_frame :: "uint8 \<Rightarrow> uint32 \<Rightarrow> uint8 list \<Rightarrow> ec_FOEt" where
  "slave_frame op num dat =
     \<lparr>MbxHeader = \<lparr>length_mbx = 6 + word_of_nat (length dat), address = 0, priority = 0,
                    mbxtype = ECT_MBXT_FOE\<rparr>,
      OpCode = op, Reserved = 0, PacketNumber = num, Data = dat\<rparr>"

definition master :: "uint16 \<Rightarrow> (int \<times> ec_FOEt) list \<Rightarrow> int list \<Rightarrow> ecx_contextt" where
  "master l rx tx =
     \<lparr>mbx_l = l, mbx_cnt = 0, FOEhook = True, mbxmem = (\<lambda>_. ec_clearmbx), mbxnext = 0,
      rxscript = rx, txscript = tx, trace = []\<rparr>"

definition nothing_pending :: "int \<times> ec_FOEt" where
  "nothing_pending = (0, ec_clearmbx)"

text \<open>
  The script of scenario S4 with a last acknowledgement added: ACK(0), BUSY, ACK(1),
  ACK(2), ACK(3).
\<close>

definition S4_slave :: "(int \<times> ec_FOEt) list" where
  "S4_slave =
     [nothing_pending, (1, slave_frame ECT_FOE_ACK 0 []), (1, slave_frame ECT_FOE_BUSY 0 []),
      (1, slave_frame ECT_FOE_ACK 1 []), (1, slave_frame ECT_FOE_ACK 2 []),
      (1, slave_frame ECT_FOE_ACK 3 [])]"

lemmas scenario_defs =
  master_def slave_frame_def nothing_pending_def foe_entry_def
  foe_request_eq requested_def ecx_mbxreceive_def log_event_def next_wkc_def
  ECT_FOE_READ_def ECT_FOE_WRITE_def ECT_FOE_DATA_def ECT_FOE_ACK_def ECT_FOE_ERROR_def
  ECT_FOE_BUSY_def ECT_MBXT_FOE_def

section \<open>Errors reported by the slave during a write\<close>

lemma FOEwrite_response_ERROR:
  assumes "mbxtype (MbxHeader f) AND 0x0f = ECT_MBXT_FOE" "OpCode f = ECT_FOE_ERROR"
  shows "FOEwrite_response slave (received w f rest s) =
     (received w f rest s)\<lparr>wkc := (if ErrorCode f = 0x8001
                                 then - EC_ERR_TYPE_FOE_FILE_NOTFOUND
                                 else - EC_ERR_TYPE_FOE_ERROR)\<rparr>"
  using assms
  by (simp add: FOEwrite_response_def Let_def deref_received
      ECT_FOE_ERROR_def ECT_FOE_ACK_def ECT_FOE_BUSY_def)


text \<open>
  C8. In \<^verbatim>\<open>ecx_FOEwrite\<close>, at any turn of the loop (\<open>s\<close> is the state at the head of
  the turn), when the response is a FoE packet with opcode ERROR the call returns
  \<open>- EC_ERR_TYPE_FOE_FILE_NOTFOUND\<close> if the packet's ErrorCode field is \<open>0x8001\<close> and
  \<open>- EC_ERR_TYPE_FOE_ERROR\<close> otherwise. The transfer ends there: no packet is sent
  after the response, no entry of the send script is used, and the responses after this
  one are not read.
\<close>

theorem FOEwrite_error_terminates:
  assumes "rxscript (ctx s) = (w, f) # rest" and "0 < w"
    and "mbxtype (MbxHeader f) AND 0x0f = ECT_MBXT_FOE" and "OpCode f = ECT_FOE_ERROR"
  shows "wkc (foe_cleanup (FOEwrite_loop slave t s)) =
           (if ErrorCode f = 0x8001 then - EC_ERR_TYPE_FOE_FILE_NOTFOUND
            else - EC_ERR_TYPE_FOE_ERROR) \<and>
         wkc (foe_cleanup (FOEwrite_loop slave t s)) < 0 \<and>
         sends (foe_cleanup (FOEwrite_loop slave t s)) = sends s \<and>
         txscript (ctx (foe_cleanup (FOEwrite_loop slave t s))) = txscript (ctx s) \<and>
         rxscript (ctx (foe_cleanup (FOEwrite_loop slave t s))) = rest"
proof -
  let ?r = "received w f rest s"
  have body: "FOEwrite_body slave t s =
      ?r\<lparr>wkc := (if ErrorCode f = 0x8001 then - EC_ERR_TYPE_FOE_FILE_NOTFOUND
                   else - EC_ERR_TYPE_FOE_ERROR)\<rparr>"
    using assms by (simp add: FOEwrite_body_ok FOEwrite_response_ERROR)
  have stop: "\<not> worktodo (FOEwrite_body slave t s)"
    by (simp add: body received_def)
  have loop: "FOEwrite_loop slave t s = FOEwrite_body slave t s"
    using stop by (rule FOEwrite_loop_stop)
  have "sends (FOEwrite_body slave t s) = sends s"
    by (simp add: body received_def sends_def dropped_in_def ecx_dropmbx_def log_event_def)
  moreover have "txscript (ctx (FOEwrite_body slave t s)) = txscript (ctx s)"
    by (simp add: body received_def dropped_in_def ecx_dropmbx_def log_event_def)
  moreover have "rxscript (ctx (FOEwrite_body slave t s)) = rest"
    by (simp add: body received_def)
  moreover have "wkc (FOEwrite_body slave t s) =
      (if ErrorCode f = 0x8001 then - EC_ERR_TYPE_FOE_FILE_NOTFOUND else - EC_ERR_TYPE_FOE_ERROR)"
    by (simp add: body)
  ultimately show ?thesis
    by (simp add: loop cleanup_fields EC_ERR_TYPE_FOE_FILE_NOTFOUND_def EC_ERR_TYPE_FOE_ERROR_def)
qed


theorem FOEwrite_error_terminates_witness:
  "wkc (ecx_FOEwrite
         (master 16 [nothing_pending, (1, slave_frame ECT_FOE_ERROR 0x8001 [])] [1])
         1 [0x61] 0 8 [1, 2, 3, 4, 5, 6, 7, 8] 1000) = - EC_ERR_TYPE_FOE_FILE_NOTFOUND \<and>
   length (sends (ecx_FOEwrite
         (master 16 [nothing_pending, (1, slave_frame ECT_FOE_ERROR 0x8001 [])] [1])
         1 [0x61] 0 8 [1, 2, 3, 4, 5, 6, 7, 8] 1000)) = 1"
  using FOEwrite_error_terminates
    [of "foe_request ECT_FOE_WRITE 1 [0x61] 0
           ((foe_entry (master 16 [nothing_pending, (1, slave_frame ECT_FOE_ERROR 0x8001 [])] [1])
              8 [1, 2, 3, 4, 5, 6, 7, 8])\<lparr>dofinalzero := True\<rparr>)"
        1 "slave_frame ECT_FOE_ERROR 0x8001 []" "[]" 1 1000]
  by (simp add: ecx_FOEwrite_def scenario_defs sends_def)

section \<open>BUSY before any data\<close>

lemma FOEwrite_response_BUSY:
  assumes "mbxtype (MbxHeader f) AND 0x0f = ECT_MBXT_FOE" "OpCode f = ECT_FOE_BUSY"
  shows "FOEwrite_response slave (received w f rest s) =
     FOEwrite_busy slave (received w f rest s)"
  using assms
  by (simp add: FOEwrite_response_def Let_def deref_received ECT_FOE_ACK_def ECT_FOE_BUSY_def)

text \<open>
  C10. If \<^verbatim>\<open>ecx_FOEwrite\<close> receives a FoE packet with opcode BUSY at a turn where
  \<open>sendpacket\<close> is 0 (no DATA packet has been sent yet), then \<open>worktodo\<close> stays false
  after the turn and the call returns the work counter of that receive, which is
  positive: it reports success although the turn has sent nothing and the size still to
  be written is what it was.
\<close>

theorem FOEwrite_busy_before_data:
  assumes "rxscript (ctx s) = (w, f) # rest" and "0 < w"
    and "mbxtype (MbxHeader f) AND 0x0f = ECT_MBXT_FOE" and "OpCode f = ECT_FOE_BUSY"
    and "sendpacket s = 0"
  shows "\<not> worktodo (FOEwrite_body slave t s) \<and>
         wkc (foe_cleanup (FOEwrite_loop slave t s)) = w \<and>
         0 < wkc (foe_cleanup (FOEwrite_loop slave t s)) \<and>
         sends (foe_cleanup (FOEwrite_loop slave t s)) = sends s \<and>
         psize (foe_cleanup (FOEwrite_loop slave t s)) = psize s"
proof -
  have body: "FOEwrite_body slave t s = received w f rest s"
    using assms
    by (simp add: FOEwrite_body_ok FOEwrite_response_BUSY FOEwrite_busy_eq) (simp add: received_def)
  have stop: "\<not> worktodo (FOEwrite_body slave t s)"
    by (simp add: body received_def)
  have loop: "FOEwrite_loop slave t s = received w f rest s"
    using stop body by (simp add: FOEwrite_loop_stop)
  have "sends (received w f rest s) = sends s"
    by (simp add: received_def sends_def dropped_in_def ecx_dropmbx_def log_event_def)
  then show ?thesis
    using stop \<open>0 < w\<close> by (simp add: loop cleanup_fields) (simp add: received_def)
qed

theorem FOEwrite_busy_before_data_witness:
  "wkc (ecx_FOEwrite
         (master 16 [nothing_pending, (1, slave_frame ECT_FOE_BUSY 0 [])] [1])
         1 [0x61] 0 8 [1, 2, 3, 4, 5, 6, 7, 8] 1000) = 1 \<and>
   psize (ecx_FOEwrite
         (master 16 [nothing_pending, (1, slave_frame ECT_FOE_BUSY 0 [])] [1])
         1 [0x61] 0 8 [1, 2, 3, 4, 5, 6, 7, 8] 1000) = 8 \<and>
   map (\<lambda>e. case e of E_mbxsend q (Some pkt) w \<Rightarrow> OpCode pkt | _ \<Rightarrow> 0)
     (sends (ecx_FOEwrite
         (master 16 [nothing_pending, (1, slave_frame ECT_FOE_BUSY 0 [])] [1])
         1 [0x61] 0 8 [1, 2, 3, 4, 5, 6, 7, 8] 1000)) = [ECT_FOE_WRITE]"
  using FOEwrite_busy_before_data
    [of "foe_request ECT_FOE_WRITE 1 [0x61] 0
           ((foe_entry (master 16 [nothing_pending, (1, slave_frame ECT_FOE_BUSY 0 [])] [1])
              8 [1, 2, 3, 4, 5, 6, 7, 8])\<lparr>dofinalzero := True\<rparr>)"
        1 "slave_frame ECT_FOE_BUSY 0 []" "[]" 1 1000]
  by (simp add: ecx_FOEwrite_def scenario_defs sends_def request_packet_def foe_packet_def)

section \<open>DATA packets during a read\<close>

lemma FOEread_response_DATA:
  assumes "mbxtype (MbxHeader f) AND 0x0f = ECT_MBXT_FOE" "OpCode f = ECT_FOE_DATA"
  shows "FOEread_response slave (received w f rest s) =
     (if sint (PacketNumber f) = prevpacket s + 1 \<and>
         dataread s + uint (length_mbx (MbxHeader f) - 6) \<le> buffersize s
      then (read_accepted slave (length_mbx (MbxHeader f) - 6) (sint (PacketNumber f)) f
              ((received w f rest s)\<lparr>prevpacket := prevpacket s + 1\<rparr>))
           \<lparr>psize := dataread s + uint (length_mbx (MbxHeader f) - 6)\<rparr>
      else (received w f rest s)
           \<lparr>prevpacket := prevpacket s + 1, wkc := - EC_ERR_TYPE_FOE_BUF2SMALL,
            psize := dataread s\<rparr>)"
  using assms
  by (simp add: FOEread_response_def Let_def deref_received etohs_def etohl_def
      FOEread_accept_eq) (simp add: received_def read_accepted_def)

text \<open>
  C3. In \<^verbatim>\<open>ecx_FOEread\<close>, at any turn of the loop, when the response is a DATA packet
  whose packet number is not \<open>prevpacket + 1\<close>, or whose segment would take
  \<open>dataread\<close> beyond the caller's buffer size, the call returns the negative code
  \<open>- EC_ERR_TYPE_FOE_BUF2SMALL\<close> at once: the caller's buffer is unchanged, no byte
  is counted, no acknowledgement is sent and no further response is read.
\<close>

theorem FOEread_rejects_segment:
  assumes "rxscript (ctx s) = (w, f) # rest" and "0 < w"
    and "mbxtype (MbxHeader f) AND 0x0f = ECT_MBXT_FOE" and "OpCode f = ECT_FOE_DATA"
    and "sint (PacketNumber f) \<noteq> prevpacket s + 1 \<or>
         buffersize s < dataread s + uint (length_mbx (MbxHeader f) - 6)"
  shows "wkc (foe_cleanup (FOEread_loop slave t s)) = - EC_ERR_TYPE_FOE_BUF2SMALL \<and>
         wkc (foe_cleanup (FOEread_loop slave t s)) < 0 \<and>
         p_mem (foe_cleanup (FOEread_loop slave t s)) = p_mem s \<and>
         dataread (foe_cleanup (FOEread_loop slave t s)) = dataread s \<and>
         psize (foe_cleanup (FOEread_loop slave t s)) = dataread s \<and>
         sends (foe_cleanup (FOEread_loop slave t s)) = sends s \<and>
         rxscript (ctx (foe_cleanup (FOEread_loop slave t s))) = rest"
proof -
  have body: "FOEread_body slave t s =
      (received w f rest s)
        \<lparr>prevpacket := prevpacket s + 1, wkc := - EC_ERR_TYPE_FOE_BUF2SMALL,
         psize := dataread s\<rparr>"
    using assms by (auto simp add: FOEread_body_ok FOEread_response_DATA)
  have stop: "\<not> worktodo (FOEread_body slave t s)"
    by (simp add: body received_def)
  have loop: "FOEread_loop slave t s = FOEread_body slave t s"
    using stop by (rule FOEread_loop_stop)
  have "sends (FOEread_body slave t s) = sends s"
    by (simp add: body received_def sends_def dropped_in_def ecx_dropmbx_def log_event_def)
  then show ?thesis
    by (simp add: loop cleanup_fields) (simp add: body received_def EC_ERR_TYPE_FOE_BUF2SMALL_def)
qed

theorem FOEread_rejects_segment_witness:
  "wkc (ecx_FOEread
         (master 128 [nothing_pending, (1, slave_frame ECT_FOE_DATA 1 [1, 2, 3, 4, 5, 6, 7, 8])] [1])
         1 [0x61] 0 5 [0, 0, 0, 0, 0] 1000) = - EC_ERR_TYPE_FOE_BUF2SMALL \<and>
   p_mem (ecx_FOEread
         (master 128 [nothing_pending, (1, slave_frame ECT_FOE_DATA 1 [1, 2, 3, 4, 5, 6, 7, 8])] [1])
         1 [0x61] 0 5 [0, 0, 0, 0, 0] 1000) = [0, 0, 0, 0, 0] \<and>
   psize (ecx_FOEread
         (master 128 [nothing_pending, (1, slave_frame ECT_FOE_DATA 1 [1, 2, 3, 4, 5, 6, 7, 8])] [1])
         1 [0x61] 0 5 [0, 0, 0, 0, 0] 1000) = 0"
  using FOEread_rejects_segment
    [of "foe_request ECT_FOE_READ 1 [0x61] 0
           ((foe_entry (master 128
               [nothing_pending, (1, slave_frame ECT_FOE_DATA 1 [1, 2, 3, 4, 5, 6, 7, 8])] [1])
              5 [0, 0, 0, 0, 0])\<lparr>buffersize := 5\<rparr>)"
        1 "slave_frame ECT_FOE_DATA 1 [1, 2, 3, 4, 5, 6, 7, 8]" "[]" 1 1000]
  by (simp add: ecx_FOEread_def scenario_defs)

section \<open>The size a read reports\<close>

text \<open>The work counter of the next receive, as the script has it.\<close>

definition next_rx_wkc :: "(int \<times> ec_FOEt) list \<Rightarrow> int" where
  "next_rx_wkc rx = (case rx of [] \<Rightarrow> 0 | (w, f) # rest \<Rightarrow> w)"

lemma rxscript_dropped_in: "rxscript (dropped_in s) = rxscript (ctx s)"
  by (simp add: dropped_in_def)

lemma foe_receive_none:
  assumes "\<not> 0 < next_rx_wkc (rxscript (ctx s))"
  shows "foe_receive slave t s =
     s\<lparr>worktodo := False, MbxIn := NULL, wkc := next_rx_wkc (rxscript (ctx s)),
       ctx := (dropped_in s)\<lparr>rxscript := tl (rxscript (ctx s))\<rparr>\<rparr>"
proof (cases "rxscript (ctx s)")
  case Nil
  then show ?thesis
    by (simp add: foe_receive_Nil next_rx_wkc_def rxscript_dropped_in [symmetric])
next
  case (Cons wf rest)
  obtain w f where wf: "wf = (w, f)" by (cases wf)
  have w: "\<not> 0 < w" using assms Cons wf by (simp add: next_rx_wkc_def)
  show ?thesis using Cons wf w by (simp add: foe_receive_fail next_rx_wkc_def)
qed

lemma FOEread_body_none:
  assumes "\<not> 0 < next_rx_wkc (rxscript (ctx s))"
  shows "FOEread_body slave t s =
     s\<lparr>worktodo := False, MbxIn := NULL, wkc := next_rx_wkc (rxscript (ctx s)),
       ctx := (dropped_in s)\<lparr>rxscript := tl (rxscript (ctx s))\<rparr>\<rparr>"
  using assms by (simp add: FOEread_body_def Let_def foe_receive_none)

lemma FOEread_body_some:
  assumes "0 < next_rx_wkc (rxscript (ctx s))"
  shows "\<exists>w f rest. rxscript (ctx s) = (w, f) # rest \<and> 0 < w \<and>
           FOEread_body slave t s = FOEread_response slave (received w f rest s)"
proof (cases "rxscript (ctx s)")
  case Nil
  then show ?thesis using assms by (simp add: next_rx_wkc_def)
next
  case (Cons wf rest)
  obtain w f where wf: "wf = (w, f)" by (cases wf)
  have "0 < w" using assms Cons wf by (simp add: next_rx_wkc_def)
  then show ?thesis using Cons wf by (simp add: FOEread_body_ok)
qed

lemma psize_FOEread_response:
  "psize (FOEread_response slave s) = dataread (FOEread_response slave s)"
  by (simp add: FOEread_response_def Let_def)

lemma FOEread_loop_psize:
  "(0 < next_rx_wkc (rxscript (ctx s)) \<longrightarrow>
      psize (FOEread_loop slave t s) = dataread (FOEread_loop slave t s)) \<and>
   (\<not> 0 < next_rx_wkc (rxscript (ctx s)) \<longrightarrow>
      psize (FOEread_loop slave t s) = psize s \<and>
      dataread (FOEread_loop slave t s) = dataread s)"
proof (induction slave t s rule: FOEread_loop.induct)
  case (1 slave t s)
  show ?case
  proof (cases "0 < next_rx_wkc (rxscript (ctx s))")
    case False
    then have "FOEread_loop slave t s = FOEread_body slave t s"
      by (simp add: FOEread_loop_stop FOEread_body_none)
    then show ?thesis using False by (simp add: FOEread_body_none)
  next
    case True
    then obtain w f rest where
      body: "FOEread_body slave t s = FOEread_response slave (received w f rest s)"
      using FOEread_body_some by blast
    have eq: "psize (FOEread_body slave t s) = dataread (FOEread_body slave t s)"
      by (simp add: body psize_FOEread_response)
    show ?thesis
    proof (cases "worktodo (FOEread_body slave t s)")
      case False
      then show ?thesis using True eq by (simp add: FOEread_loop_stop)
    next
      case todo: True
      have "psize (FOEread_loop slave t (FOEread_body slave t s)) =
          dataread (FOEread_loop slave t (FOEread_body slave t s))"
        using "1.IH" [OF refl todo] eq by (cases "0 < next_rx_wkc (rxscript (ctx (FOEread_body slave t s)))") simp_all
      then show ?thesis using True todo by (simp add: FOEread_loop_go)
    qed
  qed
qed


lemma mbxreceive_keeps:
  "txscript (snd (snd (ecx_mbxreceive c slave q t))) = txscript c"
  "rxscript (snd (snd (ecx_mbxreceive c slave q t))) = tl (rxscript c)"
  "mbx_l (snd (snd (ecx_mbxreceive c slave q t))) = mbx_l c"
  "mbx_cnt (snd (snd (ecx_mbxreceive c slave q t))) = mbx_cnt c"
  "FOEhook (snd (snd (ecx_mbxreceive c slave q t))) = FOEhook c"
  by (simp_all add: ecx_mbxreceive_def log_event_def split: list.splits)

lemma foe_request_fields:
  "wkc (foe_request op slave fn pw s) = next_wkc (txscript (ctx s))"
  "rxscript (ctx (foe_request op slave fn pw s)) = tl (rxscript (ctx s))"
  "txscript (ctx (foe_request op slave fn pw s)) = tl (txscript (ctx s))"
  "maxdata (foe_request op slave fn pw s) = mbx_l (ctx s) - 12"
  "psize (foe_request op slave fn pw s) = psize s"
  "dataread (foe_request op slave fn pw s) = dataread s"
  "buffersize (foe_request op slave fn pw s) = buffersize s"
  "prevpacket (foe_request op slave fn pw s) = prevpacket s"
  "sendpacket (foe_request op slave fn pw s) = sendpacket s"
  "dofinalzero (foe_request op slave fn pw s) = dofinalzero s"
  "p (foe_request op slave fn pw s) = p s"
  "p_mem (foe_request op slave fn pw s) = p_mem s"
  "MbxOut (foe_request op slave fn pw s) = NULL"
  by (simp_all add: foe_request_eq requested_def mbxreceive_keeps)

text \<open>
  C5, as the code has it. The assignment \<^verbatim>\<open>*psize = dataread\<close> stands inside the
  test \<^verbatim>\<open>wkc > 0\<close> on the receive, in the loop. So on return from
  \<^verbatim>\<open>ecx_FOEread\<close>: if the READ request was sent and the first receive of the loop
  delivered a response, \<^verbatim>\<open>*psize\<close> equals \<open>dataread\<close>, whatever happened next (protocol
  error, failed acknowledgement, later timeout); otherwise \<^verbatim>\<open>*psize\<close> is still the
  buffer size the caller passed, while \<open>dataread\<close> is 0.
\<close>

theorem FOEread_psize_on_return:
  "(0 < next_wkc (txscript c) \<and> 0 < next_rx_wkc (tl (rxscript c)) \<longrightarrow>
      psize (ecx_FOEread c slave fn pw sz buf t) = dataread (ecx_FOEread c slave fn pw sz buf t)) \<and>
   (\<not> (0 < next_wkc (txscript c) \<and> 0 < next_rx_wkc (tl (rxscript c))) \<longrightarrow>
      psize (ecx_FOEread c slave fn pw sz buf t) = sz \<and>
      dataread (ecx_FOEread c slave fn pw sz buf t) = 0)"
proof -
  let ?s = "foe_request ECT_FOE_READ slave fn pw ((foe_entry c sz buf)\<lparr>buffersize := sz\<rparr>)"
  have s: "wkc ?s = next_wkc (txscript c)" "rxscript (ctx ?s) = tl (rxscript c)"
    "psize ?s = sz" "dataread ?s = 0"
    by (simp_all add: foe_request_fields foe_entry_def)
  show ?thesis
  proof (cases "0 < next_wkc (txscript c)")
    case False
    then show ?thesis
      using s by (simp add: ecx_FOEread_def Let_def foe_entry_def cleanup_fields)
  next
    case True
    then have "ecx_FOEread c slave fn pw sz buf t = foe_cleanup (FOEread_loop slave t ?s)"
      using s by (simp add: ecx_FOEread_def Let_def foe_entry_def)
    then show ?thesis
      using True s FOEread_loop_psize [of ?s slave t] by (simp add: cleanup_fields)
  qed
qed

theorem FOEread_psize_on_return_witness:
  "psize (ecx_FOEread
      (master 128 [nothing_pending, (1, slave_frame ECT_FOE_DATA 1 [104, 101, 108, 108, 111])] [1, 1])
      1 [0x61] 0 16 (replicate 16 0) 1000) =
   dataread (ecx_FOEread
      (master 128 [nothing_pending, (1, slave_frame ECT_FOE_DATA 1 [104, 101, 108, 108, 111])] [1, 1])
      1 [0x61] 0 16 (replicate 16 0) 1000)"
  using FOEread_psize_on_return
    [of "master 128 [nothing_pending, (1, slave_frame ECT_FOE_DATA 1 [104, 101, 108, 108, 111])] [1, 1]"
        1 "[0x61]" 0 16 "replicate 16 0" 1000]
  by (simp add: master_def next_wkc_def next_rx_wkc_def nothing_pending_def)

text \<open>
  C5 as stated fails when the READ request cannot be sent: the call returns work counter
  0, \<open>dataread\<close> is 0 and \<^verbatim>\<open>*psize\<close> is still 16, the size the caller passed.
\<close>

theorem FOEread_psize_stale_counterexample:
  "wkc (ecx_FOEread (master 128 [nothing_pending] [0]) 1 [0x61] 0 16 (replicate 16 0) 1000) = 0 \<and>
   psize (ecx_FOEread (master 128 [nothing_pending] [0]) 1 [0x61] 0 16 (replicate 16 0) 1000) = 16 \<and>
   dataread (ecx_FOEread (master 128 [nothing_pending] [0]) 1 [0x61] 0 16 (replicate 16 0) 1000) = 0"
  by (simp add: ecx_FOEread_def scenario_defs foe_cleanup_def)

section \<open>The segments a read accepts\<close>

text \<open>
  The segments accepted are the copies into the caller's buffer; \<open>copied\<close> lists
  their sizes in order.
\<close>

fun copied :: "event list \<Rightarrow> nat list" where
  "copied [] = []"
| "copied (E_memcpy off n # es) = n # copied es"
| "copied (e # es) = copied es"

lemma copied_append: "copied (xs @ ys) = copied xs @ copied ys"
  by (induction xs rule: copied.induct) simp_all

lemma copied_dropped_in: "copied (trace (dropped_in s)) = copied (trace (ctx s))"
  by (simp add: dropped_in_def ecx_dropmbx_def log_event_def copied_append)

lemma copied_cleanup: "copied (trace (ctx (foe_cleanup s))) = copied (trace (ctx s))"
  by (simp add: foe_cleanup_def Let_def ecx_dropmbx_def log_event_def copied_append)

lemma copied_mbxreceive:
  "copied (trace (snd (snd (ecx_mbxreceive c slave q t)))) = copied (trace c)"
  by (simp add: ecx_mbxreceive_def log_event_def copied_append split: list.splits)

lemma copied_foe_request:
  "copied (trace (ctx (foe_request op slave fn pw s))) = copied (trace (ctx s))"
  by (simp add: foe_request_eq requested_def copied_append copied_mbxreceive)

text \<open>What a turn of the read loop does, by the kind of response.\<close>

lemma FOEread_response_cases:
  "(\<exists>seg n. FOEread_response slave (received w f rest s) =
        (read_accepted slave seg n f ((received w f rest s)\<lparr>prevpacket := prevpacket s + 1\<rparr>))
        \<lparr>psize := dataread s + uint seg\<rparr>) \<or>
   (\<not> worktodo (FOEread_response slave (received w f rest s)) \<and>
    wkc (FOEread_response slave (received w f rest s)) < 0)"
  by (simp add: FOEread_response_def Let_def deref_received FOEread_accept_eq
      EC_ERR_TYPE_FOE_BUF2SMALL_def EC_ERR_TYPE_FOE_ERROR_def EC_ERR_TYPE_PACKET_ERROR_def)
     (auto simp add: received_def read_accepted_def)


definition read_turn :: "uint16 \<Rightarrow> uint16 \<Rightarrow> int \<Rightarrow> int \<Rightarrow> ec_FOEt \<Rightarrow> (int \<times> ec_FOEt) list \<Rightarrow> foe_locals \<Rightarrow> foe_locals" where
  "read_turn slave seg n w f rest s =
     (read_accepted slave seg n f ((received w f rest s)\<lparr>prevpacket := prevpacket s + 1\<rparr>))
     \<lparr>psize := dataread s + uint seg\<rparr>"

lemma read_turn_fields:
  "copied (trace (ctx (read_turn slave seg n w f rest s))) = copied (trace (ctx s)) @ [unat seg]"
  "dataread (read_turn slave seg n w f rest s) = dataread s + uint seg"
  "psize (read_turn slave seg n w f rest s) = dataread s + uint seg"
  "maxdata (read_turn slave seg n w f rest s) = maxdata s"
  "wkc (read_turn slave seg n w f rest s) = next_wkc (txscript (ctx s))"
  "worktodo (read_turn slave seg n w f rest s) \<longleftrightarrow>
     seg = maxdata s \<and> 0 < next_wkc (txscript (ctx s))"
  by (simp_all add: read_turn_def read_accepted_def received_def copied_append copied_dropped_in)
     (simp_all add: dropped_in_def ecx_dropmbx_def log_event_def)

lemma FOEread_body_cases:
  "(\<exists>seg n w f rest. FOEread_body slave t s = read_turn slave seg n w f rest s) \<or>
   (\<not> worktodo (FOEread_body slave t s) \<and> wkc (FOEread_body slave t s) \<le> 0)"
proof (cases "0 < next_rx_wkc (rxscript (ctx s))")
  case False
  then show ?thesis by (simp add: FOEread_body_none)
next
  case True
  then obtain w f rest where
    body: "FOEread_body slave t s = FOEread_response slave (received w f rest s)"
    using FOEread_body_some by blast
  show ?thesis
    using FOEread_response_cases [of slave w f rest s]
    unfolding body read_turn_def by force
qed

lemma FOEread_loop_copied:
  "dataread s = int (sum_list (copied (trace (ctx s)))) \<Longrightarrow>
   copied (trace (ctx s)) = replicate k (unat (maxdata s)) \<Longrightarrow>
   0 < wkc (FOEread_loop slave t s) \<Longrightarrow>
   \<exists>k' seg. copied (trace (ctx (FOEread_loop slave t s))) = replicate k' (unat (maxdata s)) @ [seg] \<and>
     seg \<noteq> unat (maxdata s) \<and>
     psize (FOEread_loop slave t s) = int (sum_list (copied (trace (ctx (FOEread_loop slave t s)))))"
proof (induction slave t s arbitrary: k rule: FOEread_loop.induct)
  case (1 slave t s)
  let ?b = "FOEread_body slave t s"
  from FOEread_body_cases [of slave t s] show ?case
  proof
    assume "\<not> worktodo ?b \<and> wkc ?b \<le> 0"
    then show ?thesis using "1.prems"(3) by (simp add: FOEread_loop_stop)
  next
    assume "\<exists>seg n w f rest. ?b = read_turn slave seg n w f rest s"
    then obtain seg n w f rest where b: "?b = read_turn slave seg n w f rest s" by blast
    show ?thesis
    proof (cases "worktodo ?b")
      case True
      then have seg: "seg = maxdata s" by (simp add: b read_turn_fields)
      have loop: "FOEread_loop slave t s = FOEread_loop slave t ?b"
        using True by (rule FOEread_loop_go)
      have "\<exists>k' seg'. copied (trace (ctx (FOEread_loop slave t ?b))) =
            replicate k' (unat (maxdata ?b)) @ [seg'] \<and> seg' \<noteq> unat (maxdata ?b) \<and>
          psize (FOEread_loop slave t ?b) =
            int (sum_list (copied (trace (ctx (FOEread_loop slave t ?b)))))"
      proof (rule "1.IH" [OF refl True, of "Suc k"])
        show "dataread ?b = int (sum_list (copied (trace (ctx ?b))))"
          using "1.prems"(1) by (simp add: b read_turn_fields)
        show "copied (trace (ctx ?b)) = replicate (Suc k) (unat (maxdata ?b))"
          using "1.prems"(2) seg by (simp add: b read_turn_fields replicate_append_same)
        show "0 < wkc (FOEread_loop slave t ?b)"
          using "1.prems"(3) loop by simp
      qed
      then show ?thesis by (simp add: loop) (simp add: b read_turn_fields)
    next
      case False
      then have loop: "FOEread_loop slave t s = ?b" by (rule FOEread_loop_stop)
      have "0 < next_wkc (txscript (ctx s))"
        using "1.prems"(3) by (simp add: loop) (simp add: b read_turn_fields)
      then have "seg \<noteq> maxdata s" using False by (simp add: b read_turn_fields)
      then have "unat seg \<noteq> unat (maxdata s)" by (simp add: word_unat_eq_iff)
      then show ?thesis
        using "1.prems"(1,2) by (simp add: loop) (auto simp add: b read_turn_fields)
    qed
  qed
qed


text \<open>Running the read loop on a concrete script.\<close>

lemmas read_run_defs =
  FOEread_loop.simps FOEread_body_def foe_receive_def FOEread_response_def deref_def
  FOEread_accept_eq read_accepted_def ack_packet_def foe_packet_def ecx_dropmbx_def
  foe_cleanup_def memcpy_def etohl_def etohs_def

definition S2_slave :: "(int \<times> ec_FOEt) list" where
  "S2_slave =
     [nothing_pending, (1, slave_frame ECT_FOE_DATA 1 [0, 1, 2, 3]),
      (1, slave_frame ECT_FOE_DATA 2 [4, 5, 6, 7]), (1, slave_frame ECT_FOE_DATA 3 [8, 9])]"

text \<open>
  C6, as the code has it. For every successful call of \<^verbatim>\<open>ecx_FOEread\<close> (positive
  work counter, trace empty at the call), at least one segment was accepted, the
  returned \<^verbatim>\<open>*psize\<close> is the sum of the sizes of the accepted segments, every
  accepted segment but the last has exactly the size \<open>maxdata = mbx_l - 12\<close>, and the
  last has a size different from \<open>maxdata\<close>. The code compares a segment's size with
  \<open>maxdata\<close> for equality only, so the last one may be longer.
\<close>

theorem FOEread_size_is_sum_of_segments:
  assumes "trace c = []" and "0 < wkc (ecx_FOEread c slave fn pw sz buf t)"
  shows "copied (trace (ctx (ecx_FOEread c slave fn pw sz buf t))) \<noteq> [] \<and>
         psize (ecx_FOEread c slave fn pw sz buf t) =
           int (sum_list (copied (trace (ctx (ecx_FOEread c slave fn pw sz buf t))))) \<and>
         butlast (copied (trace (ctx (ecx_FOEread c slave fn pw sz buf t)))) =
           replicate (length (copied (trace (ctx (ecx_FOEread c slave fn pw sz buf t)))) - 1)
             (unat (mbx_l c - 12)) \<and>
         last (copied (trace (ctx (ecx_FOEread c slave fn pw sz buf t)))) \<noteq> unat (mbx_l c - 12)"
proof -
  let ?s = "foe_request ECT_FOE_READ slave fn pw ((foe_entry c sz buf)\<lparr>buffersize := sz\<rparr>)"
  have s: "wkc ?s = next_wkc (txscript c)" "dataread ?s = 0" "maxdata ?s = mbx_l c - 12"
    "copied (trace (ctx ?s)) = []"
    using assms(1) by (simp_all add: foe_request_fields copied_foe_request foe_entry_def)
  have sent: "0 < wkc ?s"
  proof (rule ccontr)
    assume "\<not> 0 < wkc ?s"
    then have "wkc (ecx_FOEread c slave fn pw sz buf t) = wkc ?s"
      by (simp add: ecx_FOEread_def Let_def foe_entry_def cleanup_fields)
    then show False using assms(2) \<open>\<not> 0 < wkc ?s\<close> by simp
  qed
  then have r: "ecx_FOEread c slave fn pw sz buf t = foe_cleanup (FOEread_loop slave t ?s)"
    by (simp add: ecx_FOEread_def Let_def foe_entry_def)
  have "0 < wkc (FOEread_loop slave t ?s)"
    using assms(2) by (simp add: r cleanup_fields)
  with FOEread_loop_copied [of ?s 0 slave t] s
  obtain k seg where
    "copied (trace (ctx (FOEread_loop slave t ?s))) = replicate k (unat (mbx_l c - 12)) @ [seg]"
    "seg \<noteq> unat (mbx_l c - 12)"
    "psize (FOEread_loop slave t ?s) = int (sum_list (copied (trace (ctx (FOEread_loop slave t ?s)))))"
    by auto
  then show ?thesis
    by (simp add: r cleanup_fields copied_cleanup)
qed

theorem FOEread_size_is_sum_of_segments_witness:
  "wkc (ecx_FOEread (master 16 S2_slave [1, 1, 1, 1]) 1 [0x61] 0 12 (replicate 12 0) 1000) = 1 \<and>
   copied (trace (ctx (ecx_FOEread (master 16 S2_slave [1, 1, 1, 1])
      1 [0x61] 0 12 (replicate 12 0) 1000))) = [4, 4, 2] \<and>
   psize (ecx_FOEread (master 16 S2_slave [1, 1, 1, 1]) 1 [0x61] 0 12 (replicate 12 0) 1000) = 10"
  using FOEread_size_is_sum_of_segments
    [of "master 16 S2_slave [1, 1, 1, 1]" 1 "[0x61]" 0 12 "replicate 12 0" 1000]
  by (simp add: ecx_FOEread_def scenario_defs S2_slave_def read_run_defs Let_def
      cong: let_weak_cong)

text \<open>
  C6 as stated fails on its second half: with \<open>mbx_l = 16\<close>, so \<open>maxdata = 4\<close>, a
  DATA packet whose header announces 8 octets of data is accepted, and the call
  succeeds with \<^verbatim>\<open>*psize = 8\<close>.
\<close>

theorem FOEread_long_segment_counterexample:
  "0 < wkc (ecx_FOEread
      (master 16 [nothing_pending, (1, slave_frame ECT_FOE_DATA 1 [1, 2, 3, 4, 5, 6, 7, 8])] [1, 1])
      1 [0x61] 0 16 (replicate 16 0) 1000) \<and>
   maxdata (ecx_FOEread
      (master 16 [nothing_pending, (1, slave_frame ECT_FOE_DATA 1 [1, 2, 3, 4, 5, 6, 7, 8])] [1, 1])
      1 [0x61] 0 16 (replicate 16 0) 1000) = 4 \<and>
   copied (trace (ctx (ecx_FOEread
      (master 16 [nothing_pending, (1, slave_frame ECT_FOE_DATA 1 [1, 2, 3, 4, 5, 6, 7, 8])] [1, 1])
      1 [0x61] 0 16 (replicate 16 0) 1000))) = [8] \<and>
   psize (ecx_FOEread
      (master 16 [nothing_pending, (1, slave_frame ECT_FOE_DATA 1 [1, 2, 3, 4, 5, 6, 7, 8])] [1, 1])
      1 [0x61] 0 16 (replicate 16 0) 1000) = 8"
  by (simp add: ecx_FOEread_def scenario_defs read_run_defs Let_def cong: let_weak_cong)

section \<open>After an accepted segment\<close>

lemma rxscript_foe_receive:
  "rxscript (ctx (foe_receive slave t s)) = tl (rxscript (ctx s))"
proof (cases "rxscript (ctx s)")
  case Nil
  then show ?thesis by (simp add: foe_receive_Nil dropped_in_def)
next
  case (Cons wf rest)
  obtain w f where wf: "wf = (w, f)" by (cases wf)
  show ?thesis
  proof (cases "0 < w")
    case True
    then show ?thesis using Cons wf by (simp add: foe_receive_ok received_def)
  next
    case False
    then show ?thesis using Cons wf by (simp add: foe_receive_fail)
  qed
qed

lemma rxscript_FOEread_body:
  "rxscript (ctx (FOEread_body slave t s)) = tl (rxscript (ctx s))"
  by (simp add: FOEread_body_def Let_def rxscript_FOEread_response rxscript_foe_receive)

lemma FOEread_loop_reads:
  "length (rxscript (ctx (FOEread_loop slave t s))) \<le> length (tl (rxscript (ctx s)))"
proof (induction slave t s rule: FOEread_loop.induct)
  case (1 slave t s)
  show ?case
  proof (cases "worktodo (FOEread_body slave t s)")
    case False
    then show ?thesis by (simp add: FOEread_loop_stop rxscript_FOEread_body)
  next
    case True
    have "length (rxscript (ctx (FOEread_loop slave t (FOEread_body slave t s))))
        \<le> length (tl (rxscript (ctx (FOEread_body slave t s))))"
      using "1.IH" [OF refl True] .
    also have "\<dots> \<le> length (tl (rxscript (ctx s)))"
      by (simp add: rxscript_FOEread_body)
    finally show ?thesis using True by (simp add: FOEread_loop_go)
  qed
qed

text \<open>
  C4. In \<^verbatim>\<open>ecx_FOEread\<close>, at any turn of the loop (\<open>s\<close> is the state at the head of
  the turn), when a DATA segment is accepted and its acknowledgement is sent (the send
  returns a positive work counter), the loop goes on if and only if the segment length
  equals \<open>maxdata\<close>. After a full segment the loop runs on from the state this turn
  leaves, so the next response of the slave is read. For any other length, a shorter
  one in particular, this turn is the last: no further response is read, the call
  returns that positive work counter and \<^verbatim>\<open>*psize\<close> is the number of bytes
  delivered in all.
\<close>

theorem FOEread_continues_iff_full_segment:
  assumes "rxscript (ctx s) = (w, f) # rest" and "0 < w"
    and "mbxtype (MbxHeader f) AND 0x0f = ECT_MBXT_FOE" and "OpCode f = ECT_FOE_DATA"
    and "sint (PacketNumber f) = prevpacket s + 1"
    and "dataread s + uint (length_mbx (MbxHeader f) - 6) \<le> buffersize s"
    and "0 < next_wkc (txscript (ctx s))"
  shows "(worktodo (FOEread_body slave t s) \<longleftrightarrow> length_mbx (MbxHeader f) - 6 = maxdata s) \<and>
         (length_mbx (MbxHeader f) - 6 = maxdata s \<longrightarrow>
            FOEread_loop slave t s = FOEread_loop slave t (FOEread_body slave t s) \<and>
            rxscript (ctx (FOEread_body slave t s)) = rest \<and>
            prevpacket (FOEread_body slave t s) = prevpacket s + 1 \<and>
            dataread (FOEread_body slave t s) = dataread s + uint (maxdata s) \<and>
            length (rxscript (ctx (foe_cleanup (FOEread_loop slave t s)))) \<le> length (tl rest)) \<and>
         (length_mbx (MbxHeader f) - 6 \<noteq> maxdata s \<longrightarrow>
            FOEread_loop slave t s = FOEread_body slave t s \<and>
            rxscript (ctx (foe_cleanup (FOEread_loop slave t s))) = rest \<and>
            wkc (foe_cleanup (FOEread_loop slave t s)) = next_wkc (txscript (ctx s)) \<and>
            0 < wkc (foe_cleanup (FOEread_loop slave t s)) \<and>
            psize (foe_cleanup (FOEread_loop slave t s)) =
              dataread s + uint (length_mbx (MbxHeader f) - 6) \<and>
            dataread (foe_cleanup (FOEread_loop slave t s)) =
              dataread s + uint (length_mbx (MbxHeader f) - 6)) \<and>
         (rest \<noteq> [] \<longrightarrow>
            (rxscript (ctx (foe_cleanup (FOEread_loop slave t s))) \<noteq> rest \<longleftrightarrow>
             length_mbx (MbxHeader f) - 6 = maxdata s))"
proof -
  let ?seg = "length_mbx (MbxHeader f) - 6"
  let ?b = "FOEread_body slave t s"
  have body: "?b =
      (read_accepted slave ?seg (sint (PacketNumber f)) f
         ((received w f rest s)\<lparr>prevpacket := prevpacket s + 1\<rparr>))
      \<lparr>psize := dataread s + uint ?seg\<rparr>"
    using assms by (simp add: FOEread_body_ok FOEread_response_DATA)
  have todo: "worktodo ?b \<longleftrightarrow> ?seg = maxdata s"
    using assms(7) by (simp add: body read_accepted_def received_def dropped_in_def
        ecx_dropmbx_def log_event_def)
  have fields:
    "wkc ?b = next_wkc (txscript (ctx s))"
    "psize ?b = dataread s + uint ?seg"
    "dataread ?b = dataread s + uint ?seg"
    "prevpacket ?b = prevpacket s + 1"
    by (simp_all add: body read_accepted_def received_def dropped_in_def
        ecx_dropmbx_def log_event_def)
  have rx: "rxscript (ctx ?b) = rest"
    using assms(1) by (simp add: rxscript_FOEread_body)
  have full: "FOEread_loop slave t s = FOEread_loop slave t ?b \<and>
      length (rxscript (ctx (foe_cleanup (FOEread_loop slave t s)))) \<le> length (tl rest)"
    if "?seg = maxdata s"
  proof -
    have go: "FOEread_loop slave t s = FOEread_loop slave t ?b"
      using that todo by (simp add: FOEread_loop_go)
    have "length (rxscript (ctx (FOEread_loop slave t ?b))) \<le> length (tl rest)"
      using FOEread_loop_reads [of slave t ?b] by (simp only: rx)
    then have "length (rxscript (ctx (foe_cleanup (FOEread_loop slave t s)))) \<le> length (tl rest)"
      by (simp only: cleanup_fields go)
    with go show ?thesis by (rule conjI)
  qed
  have short: "FOEread_loop slave t s = ?b"
    if "?seg \<noteq> maxdata s"
    using that todo by (simp add: FOEread_loop_stop)
  have c1: "worktodo ?b \<longleftrightarrow> ?seg = maxdata s" by (rule todo)
  have c2: "?seg = maxdata s \<longrightarrow>
            FOEread_loop slave t s = FOEread_loop slave t ?b \<and>
            rxscript (ctx ?b) = rest \<and>
            prevpacket ?b = prevpacket s + 1 \<and>
            dataread ?b = dataread s + uint (maxdata s) \<and>
            length (rxscript (ctx (foe_cleanup (FOEread_loop slave t s)))) \<le> length (tl rest)"
    using full rx fields by auto
  have c3: "?seg \<noteq> maxdata s \<longrightarrow>
            FOEread_loop slave t s = ?b \<and>
            rxscript (ctx (foe_cleanup (FOEread_loop slave t s))) = rest \<and>
            wkc (foe_cleanup (FOEread_loop slave t s)) = next_wkc (txscript (ctx s)) \<and>
            0 < wkc (foe_cleanup (FOEread_loop slave t s)) \<and>
            psize (foe_cleanup (FOEread_loop slave t s)) = dataread s + uint ?seg \<and>
            dataread (foe_cleanup (FOEread_loop slave t s)) = dataread s + uint ?seg"
    using short rx fields assms(7) by (simp add: cleanup_fields)
  have c4: "rest \<noteq> [] \<longrightarrow>
            (rxscript (ctx (foe_cleanup (FOEread_loop slave t s))) \<noteq> rest \<longleftrightarrow> ?seg = maxdata s)"
  proof (cases "?seg = maxdata s")
    case True
    have "length (rxscript (ctx (foe_cleanup (FOEread_loop slave t s)))) \<le> length (tl rest)"
      using full [OF True] by (rule conjunct2)
    then have "rest \<noteq> [] \<longrightarrow> rxscript (ctx (foe_cleanup (FOEread_loop slave t s))) \<noteq> rest"
      by (cases rest) auto
    then show ?thesis using True by simp
  next
    case False
    then show ?thesis using c3 by blast
  qed
  show ?thesis using c1 c2 c3 c4 by blast
qed

theorem FOEread_continues_iff_full_segment_witness:
  "wkc (ecx_FOEread
         (master 16 [nothing_pending, (1, slave_frame ECT_FOE_DATA 1 [1, 2, 3, 4]),
                     (1, slave_frame ECT_FOE_DATA 2 [5, 6])] [1, 1, 1])
         1 [0x61] 0 16 (replicate 16 0) 1000) = 1 \<and>
   psize (ecx_FOEread
         (master 16 [nothing_pending, (1, slave_frame ECT_FOE_DATA 1 [1, 2, 3, 4]),
                     (1, slave_frame ECT_FOE_DATA 2 [5, 6])] [1, 1, 1])
         1 [0x61] 0 16 (replicate 16 0) 1000) = 6 \<and>
   rxscript (ctx (ecx_FOEread
         (master 16 [nothing_pending, (1, slave_frame ECT_FOE_DATA 1 [1, 2, 3, 4]),
                     (1, slave_frame ECT_FOE_DATA 2 [5, 6])] [1, 1, 1])
         1 [0x61] 0 16 (replicate 16 0) 1000)) = []"
  using FOEread_continues_iff_full_segment
    [of "foe_request ECT_FOE_READ 1 [0x61] 0
           ((foe_entry (master 16
               [nothing_pending, (1, slave_frame ECT_FOE_DATA 1 [1, 2, 3, 4]),
                (1, slave_frame ECT_FOE_DATA 2 [5, 6])] [1, 1, 1])
              16 (replicate 16 0))\<lparr>buffersize := 16\<rparr>)"
        1 "slave_frame ECT_FOE_DATA 1 [1, 2, 3, 4]" "[(1, slave_frame ECT_FOE_DATA 2 [5, 6])]" 1 1000]
    FOEread_continues_iff_full_segment
    [of "FOEread_body 1 1000 (foe_request ECT_FOE_READ 1 [0x61] 0
           ((foe_entry (master 16
               [nothing_pending, (1, slave_frame ECT_FOE_DATA 1 [1, 2, 3, 4]),
                (1, slave_frame ECT_FOE_DATA 2 [5, 6])] [1, 1, 1])
              16 (replicate 16 0))\<lparr>buffersize := 16\<rparr>))"
        1 "slave_frame ECT_FOE_DATA 2 [5, 6]" "[]" 1 1000]
  by (simp add: ecx_FOEread_def scenario_defs read_run_defs Let_def cong: let_weak_cong)

section \<open>The segments a write sends\<close>

































text \<open>Running the write loop on a concrete script; a slave that acknowledges every packet.\<close>

lemmas write_run_defs =
  FOEwrite_loop.simps FOEwrite_body_def foe_receive_def FOEwrite_response_def deref_def
  FOEwrite_ack_eq FOEwrite_busy_eq ack_sent_def busy_sent_def rewound_def tsize_of_def
  data_packet_def foe_packet_def request_packet_def fnsize_of_def FOEhook_call_def
  store_def ecx_dropmbx_def foe_cleanup_def memcpy_def etohl_def
  EC_MAXFOEDATA_def EC_MAXMBX_def ec_clearmbx_def






section \<open>Mailbox buffers\<close>

text \<open>
  A monitor for the buffers the driver holds: the pair is the inbound and the outbound
  buffer held, \<open>NULL\<close> for none. A buffer arrives by \<^verbatim>\<open>ecx_mbxreceive\<close> or
  \<^verbatim>\<open>ecx_getmbx\<close> only while its place is free; the outbound buffer leaves when it is
  passed to \<^verbatim>\<open>ecx_mbxsend\<close>, whatever the work counter returned; the inbound buffer
  leaves by \<^verbatim>\<open>ecx_dropmbx\<close>; a drop of anything else, or a send of a pool buffer that
  is not the one held, stops the monitor. A send of a pointer that is no pool buffer
  (line 371) moves no buffer. \<open>acquired\<close> lists the buffers handed to the driver.
\<close>

fun mbx_step :: "ptr \<times> ptr \<Rightarrow> event \<Rightarrow> (ptr \<times> ptr) option" where
  "mbx_step (i, out) (E_mbxreceive n) = (if i = NULL then Some (Mbx n, out) else None)"
| "mbx_step (i, out) (E_getmbx n) = (if out = NULL then Some (i, Mbx n) else None)"
| "mbx_step (i, out) (E_mbxsend q pkt w) =
     (case q of Mbx n \<Rightarrow> (if out = Mbx n then Some (i, NULL) else None) | _ \<Rightarrow> Some (i, out))"
| "mbx_step (i, out) (E_dropmbx q) = (if q \<noteq> NULL \<and> q = i then Some (NULL, out) else None)"
| "mbx_step (i, out) (E_FOEhook sl n sz) = Some (i, out)"
| "mbx_step (i, out) (E_memcpy off n) = Some (i, out)"

fun mbx_run :: "ptr \<times> ptr \<Rightarrow> event list \<Rightarrow> (ptr \<times> ptr) option" where
  "mbx_run h [] = Some h"
| "mbx_run h (e # es) = (case mbx_step h e of None \<Rightarrow> None | Some h' \<Rightarrow> mbx_run h' es)"

fun acquired :: "event list \<Rightarrow> nat list" where
  "acquired [] = []"
| "acquired (E_mbxreceive n # es) = n # acquired es"
| "acquired (E_getmbx n # es) = n # acquired es"
| "acquired (e # es) = acquired es"

lemma mbx_run_append:
  "mbx_run h (xs @ ys) = (case mbx_run h xs of None \<Rightarrow> None | Some h' \<Rightarrow> mbx_run h' ys)"
  by (induction xs arbitrary: h) (simp_all split: option.splits)

lemma acquired_append: "acquired (xs @ ys) = acquired xs @ acquired ys"
  by (induction xs rule: acquired.induct) simp_all

definition mbx_inv :: "foe_locals \<Rightarrow> bool" where
  "mbx_inv s \<longleftrightarrow>
     mbx_run (NULL, NULL) (trace (ctx s)) = Some (MbxIn s, NULL) \<and> MbxOut s = NULL \<and>
     distinct (acquired (trace (ctx s))) \<and>
     (\<forall>n \<in> set (acquired (trace (ctx s))). n < mbxnext (ctx s))"

lemma mbx_inv_dropped_in:
  assumes "mbx_inv s"
  shows "mbx_run (NULL, NULL) (trace (dropped_in s)) = Some (NULL, NULL)"
    and "acquired (trace (dropped_in s)) = acquired (trace (ctx s))"
    and "mbxnext (dropped_in s) = mbxnext (ctx s)"
  using assms
  by (auto simp add: mbx_inv_def dropped_in_def ecx_dropmbx_def log_event_def mbx_run_append
      acquired_append)

lemma mbx_inv_foe_receive:
  assumes "mbx_inv s"
  shows "mbx_inv (foe_receive slave t s)"
proof (cases "0 < next_rx_wkc (rxscript (ctx s))")
  case False
  then show ?thesis
    using assms mbx_inv_dropped_in [OF assms]
    by (simp add: foe_receive_none) (simp add: mbx_inv_def)
next
  case True
  then obtain w f rest where rx: "rxscript (ctx s) = (w, f) # rest" and w: "0 < w"
    by (cases "rxscript (ctx s)") (auto simp add: next_rx_wkc_def)
  show ?thesis
    using assms mbx_inv_dropped_in [OF assms]
    by (simp add: foe_receive_ok [OF rx w])
       (auto simp add: mbx_inv_def received_def mbx_run_append acquired_append)
qed


lemma mbx_inv_fields:
  assumes "ctx s' = ctx s" and "MbxIn s' = MbxIn s" and "MbxOut s' = MbxOut s"
  shows "mbx_inv s' \<longleftrightarrow> mbx_inv s"
  using assms by (simp add: mbx_inv_def)

lemma mbx_inv_read_accepted:
  assumes "mbx_inv s"
  shows "mbx_inv (read_accepted slave seg n a s)"
  using assms
  by (auto simp add: mbx_inv_def read_accepted_def mbx_run_append acquired_append)

lemma mbx_inv_FOEread_response:
  assumes "mbx_inv s"
  shows "mbx_inv (FOEread_response slave s)"
proof -
  have pp: "mbx_inv (s\<lparr>prevpacket := prevpacket s + 1\<rparr>)"
    using assms by (simp add: mbx_inv_def)
  show ?thesis
    using assms mbx_inv_read_accepted [OF pp]
    by (simp add: FOEread_response_def Let_def FOEread_accept_eq)
       (simp add: mbx_inv_def)
qed

lemma mbx_inv_FOEhook_call:
  "mbx_run h (trace (FOEhook_call slave n sz c)) = mbx_run h (trace c)"
  "acquired (trace (FOEhook_call slave n sz c)) = acquired (trace c)"
  by (simp_all add: FOEhook_call_def log_event_def mbx_run_append acquired_append
      split: option.splits prod.splits)

lemma mbx_inv_ack_sent:
  assumes "mbx_inv s"
  shows "mbx_inv (ack_sent slave s)"
  using assms
  by (auto simp add: mbx_inv_def ack_sent_def mbx_run_append acquired_append mbx_inv_FOEhook_call)

lemma mbx_inv_busy_sent:
  assumes "mbx_inv s"
  shows "mbx_inv (busy_sent s)"
  using assms
  by (auto simp add: mbx_inv_def busy_sent_def mbx_run_append acquired_append store_def
      split: ptr.splits)

lemma mbx_inv_FOEwrite_ack:
  assumes "mbx_inv s"
  shows "mbx_inv (FOEwrite_ack slave a s)"
proof -
  have hk: "mbx_inv (s\<lparr>ctx := FOEhook_call slave (sendpacket s) (psize s) (ctx s)\<rparr>)"
    using assms by (simp add: mbx_inv_def mbx_inv_FOEhook_call)
  have wk: "mbx_inv (s\<lparr>wkc := - EC_ERR_TYPE_FOE_PACKETNUMBER\<rparr>)"
    using assms by (simp add: mbx_inv_def)
  show ?thesis
    unfolding FOEwrite_ack_eq using mbx_inv_ack_sent [OF assms] hk wk by simp
qed

lemma mbx_inv_FOEwrite_busy:
  assumes "mbx_inv s"
  shows "mbx_inv (FOEwrite_busy slave s)"
proof -
  have rw: "mbx_inv (rewound s)"
    using assms by (simp add: mbx_inv_def rewound_def)
  show ?thesis
    unfolding FOEwrite_busy_eq using assms rw mbx_inv_busy_sent [OF rw] by simp
qed

lemma FOEwrite_response_kinds:
  "FOEwrite_response slave s = FOEwrite_ack slave (deref (ctx s) (MbxIn s)) s \<or>
   FOEwrite_response slave s = FOEwrite_busy slave s \<or>
   (\<exists>x. FOEwrite_response slave s = s\<lparr>wkc := x\<rparr>)"
  unfolding FOEwrite_response_def Let_def by auto

lemma mbx_inv_FOEwrite_response:
  assumes "mbx_inv s"
  shows "mbx_inv (FOEwrite_response slave s)"
proof -
  have wk: "\<And>x. mbx_inv (s\<lparr>wkc := x\<rparr>)"
    using assms by (simp add: mbx_inv_def)
  show ?thesis
    using FOEwrite_response_kinds [of slave s] mbx_inv_FOEwrite_ack [OF assms]
      mbx_inv_FOEwrite_busy [OF assms] wk
    by auto
qed

lemma mbx_inv_FOEread_body: "mbx_inv s \<Longrightarrow> mbx_inv (FOEread_body slave t s)"
  by (simp add: FOEread_body_def Let_def mbx_inv_foe_receive mbx_inv_FOEread_response)

lemma mbx_inv_FOEwrite_body: "mbx_inv s \<Longrightarrow> mbx_inv (FOEwrite_body slave t s)"
  by (simp add: FOEwrite_body_def Let_def mbx_inv_foe_receive mbx_inv_FOEwrite_response)

lemma mbx_inv_FOEread_loop: "mbx_inv s \<Longrightarrow> mbx_inv (FOEread_loop slave t s)"
proof (induction slave t s rule: FOEread_loop.induct)
  case (1 slave t s)
  then show ?case
    by (cases "worktodo (FOEread_body slave t s)")
       (simp_all add: FOEread_loop_go FOEread_loop_stop mbx_inv_FOEread_body)
qed

lemma mbx_inv_FOEwrite_loop: "mbx_inv s \<Longrightarrow> mbx_inv (FOEwrite_loop slave t s)"
proof (induction slave t s rule: FOEwrite_loop.induct)
  case (1 slave t s)
  then show ?case
    by (cases "worktodo (FOEwrite_body slave t s)")
       (simp_all add: FOEwrite_loop_go FOEwrite_loop_stop mbx_inv_FOEwrite_body)
qed

lemma mbx_inv_foe_request:
  assumes "trace (ctx s) = []"
  shows "mbx_inv (foe_request op slave fn pw s)"
  using assms
  by (simp add: foe_request_eq requested_def mbx_inv_def ecx_mbxreceive_def log_event_def
      mbx_run_append acquired_append split: list.splits)

lemma mbx_inv_foe_cleanup:
  assumes "mbx_inv s"
  shows "mbx_run (NULL, NULL) (trace (ctx (foe_cleanup s))) = Some (NULL, NULL) \<and>
         distinct (acquired (trace (ctx (foe_cleanup s))))"
  using assms
  by (auto simp add: mbx_inv_def foe_cleanup_def Let_def ecx_dropmbx_def log_event_def
      mbx_run_append acquired_append)

text \<open>
  Counting on the trace: the buffers that arrived from \<^verbatim>\<open>ecx_mbxreceive\<close>, those
  gotten from \<^verbatim>\<open>ecx_getmbx\<close>, how often buffer \<open>n\<close> was dropped and how often it was
  passed to \<^verbatim>\<open>ecx_mbxsend\<close>. A trace the monitor accepts from and to the empty pair
  drops every buffer as often as it arrived and passes every buffer as often as it was
  gotten.
\<close>

fun arrived :: "event list \<Rightarrow> nat list" where
  "arrived [] = []"
| "arrived (E_mbxreceive n # es) = n # arrived es"
| "arrived (e # es) = arrived es"

fun gotten :: "event list \<Rightarrow> nat list" where
  "gotten [] = []"
| "gotten (E_getmbx n # es) = n # gotten es"
| "gotten (e # es) = gotten es"

fun dropped :: "nat \<Rightarrow> event list \<Rightarrow> nat" where
  "dropped n [] = 0"
| "dropped n (E_dropmbx q # es) = (if q = Mbx n then 1 else 0) + dropped n es"
| "dropped n (e # es) = dropped n es"

fun passed :: "nat \<Rightarrow> event list \<Rightarrow> nat" where
  "passed n [] = 0"
| "passed n (E_mbxsend q pkt w # es) = (if q = Mbx n then 1 else 0) + passed n es"
| "passed n (e # es) = passed n es"

lemma acquired_split:
  "set (acquired tr) = set (arrived tr) \<union> set (gotten tr)"
  by (induction tr rule: acquired.induct) auto

lemma distinct_acquired:
  "distinct (acquired tr) \<Longrightarrow>
   distinct (arrived tr) \<and> distinct (gotten tr) \<and> set (arrived tr) \<inter> set (gotten tr) = {}"
  by (induction tr rule: acquired.induct) (auto simp add: acquired_split)

lemma count_list_distinct: "distinct xs \<Longrightarrow> x \<in> set xs \<Longrightarrow> count_list xs x = 1"
  by (induction xs) auto

lemma mbx_run_inbound:
  "mbx_run h tr = Some h' \<Longrightarrow>
   dropped n tr + (if fst h' = Mbx n then 1 else 0) =
     count_list (arrived tr) n + (if fst h = Mbx n then 1 else 0)"
proof (induction tr arbitrary: h)
  case Nil
  then show ?case by simp
next
  case (Cons e tr)
  obtain i out where h: "h = (i, out)" by (cases h)
  from Cons.prems obtain h1 where
    step: "mbx_step (i, out) e = Some h1" and run: "mbx_run h1 tr = Some h'"
    unfolding h by (auto split: option.splits)
  note ih = Cons.IH [OF run]
  show ?case
    using step ih unfolding h
    by (cases e) (auto split: if_splits ptr.splits)
qed

lemma mbx_run_outbound:
  "mbx_run h tr = Some h' \<Longrightarrow>
   passed n tr + (if snd h' = Mbx n then 1 else 0) =
     count_list (gotten tr) n + (if snd h = Mbx n then 1 else 0)"
proof (induction tr arbitrary: h)
  case Nil
  then show ?case by simp
next
  case (Cons e tr)
  obtain i out where h: "h = (i, out)" by (cases h)
  from Cons.prems obtain h1 where
    step: "mbx_step (i, out) e = Some h1" and run: "mbx_run h1 tr = Some h'"
    unfolding h by (auto split: option.splits)
  note ih = Cons.IH [OF run]
  show ?case
    using step ih unfolding h
    by (cases e) (auto split: if_splits ptr.splits)
qed

lemma mbx_run_exactly_once:
  assumes "mbx_run (NULL, NULL) tr = Some (NULL, NULL)" and "distinct (acquired tr)"
  shows "(\<forall>n \<in> set (arrived tr). dropped n tr = 1 \<and> passed n tr = 0) \<and>
         (\<forall>n \<in> set (gotten tr). passed n tr = 1 \<and> dropped n tr = 0)"
proof -
  have d: "distinct (arrived tr)" "distinct (gotten tr)" "set (arrived tr) \<inter> set (gotten tr) = {}"
    using distinct_acquired [OF assms(2)] by simp_all
  have i: "\<And>n. dropped n tr = count_list (arrived tr) n"
    using mbx_run_inbound [OF assms(1)] by simp
  have ob: "\<And>n. passed n tr = count_list (gotten tr) n"
    using mbx_run_outbound [OF assms(1)] by simp
  have "\<And>n. n \<in> set (arrived tr) \<Longrightarrow> dropped n tr = 1 \<and> passed n tr = 0"
  proof -
    fix n assume n: "n \<in> set (arrived tr)"
    then have "n \<notin> set (gotten tr)" using d(3) by blast
    then show "dropped n tr = 1 \<and> passed n tr = 0"
      using n d(1) by (simp add: i ob count_list_distinct)
  qed
  moreover have "\<And>n. n \<in> set (gotten tr) \<Longrightarrow> passed n tr = 1 \<and> dropped n tr = 0"
  proof -
    fix n assume n: "n \<in> set (gotten tr)"
    then have "n \<notin> set (arrived tr)" using d(3) by blast
    then show "passed n tr = 1 \<and> dropped n tr = 0"
      using n d(2) by (simp add: i ob count_list_distinct)
  qed
  ultimately show ?thesis by blast
qed

text \<open>
  What the driver owes the pool, on a trace: the monitor accepts it and ends holding
  nothing, no buffer is handed out twice, every buffer that arrived is dropped once and
  never sent, every buffer gotten is passed to a send once and never dropped.
\<close>

definition mbx_ok :: "event list \<Rightarrow> bool" where
  "mbx_ok tr \<longleftrightarrow>
     mbx_run (NULL, NULL) tr = Some (NULL, NULL) \<and> distinct (acquired tr) \<and>
     (\<forall>n \<in> set (arrived tr). dropped n tr = 1 \<and> passed n tr = 0) \<and>
     (\<forall>n \<in> set (gotten tr). passed n tr = 1 \<and> dropped n tr = 0)"

lemma mbx_inv_mbx_ok:
  assumes "mbx_inv s"
  shows "mbx_ok (trace (ctx (foe_cleanup s)))"
  using mbx_inv_foe_cleanup [OF assms] mbx_run_exactly_once
  unfolding mbx_ok_def by blast

text \<open>
  C9, as the code has it. On every exit path of \<^verbatim>\<open>ecx_FOEread\<close> and
  \<^verbatim>\<open>ecx_FOEwrite\<close> (trace empty at the call): at most one inbound and one outbound
  buffer are held at any moment and none on return; every buffer received by
  \<^verbatim>\<open>ecx_mbxreceive\<close> is released exactly once, by \<^verbatim>\<open>ecx_dropmbx\<close>; every buffer
  acquired by \<^verbatim>\<open>ecx_getmbx\<close> is passed to \<^verbatim>\<open>ecx_mbxsend\<close> exactly once, and the
  driver gives it up at that call whatever the work counter returned
  (\<^verbatim>\<open>MbxOut = NULL\<close> follows every send), so the driver never drops it.
\<close>

theorem FOE_mailbox_buffers:
  assumes "trace c = []"
  shows "mbx_ok (trace (ctx (ecx_FOEread c slave fn pw sz buf t))) \<and>
         mbx_ok (trace (ctx (ecx_FOEwrite c slave fn pw sz buf t)))"
proof -
  let ?r = "foe_request ECT_FOE_READ slave fn pw ((foe_entry c sz buf)\<lparr>buffersize := sz\<rparr>)"
  let ?w = "foe_request ECT_FOE_WRITE slave fn pw ((foe_entry c sz buf)\<lparr>dofinalzero := True\<rparr>)"
  have r: "mbx_inv ?r" and w: "mbx_inv ?w"
    using assms by (simp_all add: mbx_inv_foe_request foe_entry_def)
  have ir: "mbx_inv (if 0 < wkc ?r then FOEread_loop slave t ?r else ?r)"
    using r by (simp add: mbx_inv_FOEread_loop)
  have iw: "mbx_inv (if 0 < wkc ?w then FOEwrite_loop slave t ?w else ?w)"
    using w by (simp add: mbx_inv_FOEwrite_loop)
  have er: "ecx_FOEread c slave fn pw sz buf t =
      foe_cleanup (if 0 < wkc ?r then FOEread_loop slave t ?r else ?r)"
    by (simp add: ecx_FOEread_def Let_def foe_entry_def)
  have ew: "ecx_FOEwrite c slave fn pw sz buf t =
      foe_cleanup (if 0 < wkc ?w then FOEwrite_loop slave t ?w else ?w)"
    by (simp add: ecx_FOEwrite_def Let_def foe_entry_def)
  show ?thesis
    unfolding er ew using mbx_inv_mbx_ok [OF ir] mbx_inv_mbx_ok [OF iw] by blast
qed

theorem FOE_mailbox_buffers_witness:
  "mbx_ok (trace (ctx (ecx_FOEread (master 16 S4_slave [1, 1, 1, 1, 1])
      1 [0x61] 0 8 [1, 2, 3, 4, 5, 6, 7, 8] 1000))) \<and>
   mbx_ok (trace (ctx (ecx_FOEwrite (master 16 S4_slave [1, 1, 1, 1, 1])
      1 [0x61] 0 8 [1, 2, 3, 4, 5, 6, 7, 8] 1000))) \<and>
   arrived (trace (ctx (ecx_FOEwrite (master 16 S4_slave [1, 1, 1, 1, 1])
      1 [0x61] 0 8 [1, 2, 3, 4, 5, 6, 7, 8] 1000))) = [1, 3, 4, 6, 8] \<and>
   gotten (trace (ctx (ecx_FOEwrite (master 16 S4_slave [1, 1, 1, 1, 1])
      1 [0x61] 0 8 [1, 2, 3, 4, 5, 6, 7, 8] 1000))) = [0, 2, 5, 7]"
  using FOE_mailbox_buffers
    [of "master 16 S4_slave [1, 1, 1, 1, 1]" 1 "[0x61]" 0 8 "[1, 2, 3, 4, 5, 6, 7, 8]" 1000]
  by (simp add: master_def)
     (simp add: ecx_FOEwrite_def scenario_defs S4_slave_def write_run_defs Let_def
      cong: let_weak_cong)

fun released :: "nat \<Rightarrow> event list \<Rightarrow> nat" where
  "released n [] = 0"
| "released n (E_mbxsend q pkt w # es) = (if q = Mbx n \<and> 0 < w then 1 else 0) + released n es"
| "released n (E_dropmbx q # es) = (if q = Mbx n then 1 else 0) + released n es"
| "released n (e # es) = released n es"

text \<open>
  C9 as stated counts a buffer as released when \<^verbatim>\<open>ecx_mbxsend\<close> succeeds or when it
  is dropped; \<open>released n\<close> counts these events for buffer \<open>n\<close>. When the READ
  request cannot be sent, buffer 0 is acquired and never released in that sense.
\<close>

theorem FOEread_failed_send_counterexample:
  "wkc (ecx_FOEread (master 128 [nothing_pending] [0]) 1 [0x61] 0 16 (replicate 16 0) 1000) = 0 \<and>
   acquired (trace (ctx (ecx_FOEread (master 128 [nothing_pending] [0])
      1 [0x61] 0 16 (replicate 16 0) 1000))) = [0] \<and>
   released 0 (trace (ctx (ecx_FOEread (master 128 [nothing_pending] [0])
      1 [0x61] 0 16 (replicate 16 0) 1000))) = 0"
  by (simp add: ecx_FOEread_def scenario_defs foe_cleanup_def)

section \<open>BUSY after data has been sent\<close>

text \<open>What a send passed on: the pointer and, for a pool buffer, opcode, number and payload.\<close>

fun sent_view :: "event \<Rightarrow> ptr \<times> (uint8 \<times> uint32 \<times> uint8 list) option" where
  "sent_view (E_mbxsend q (Some pkt) w) =
     (q, Some (OpCode pkt, PacketNumber pkt,
               take (unat (length_mbx (MbxHeader pkt)) - 6) (Data pkt)))"
| "sent_view (E_mbxsend q None w) = (q, None)"
| "sent_view e = (NULL, None)"

text \<open>
  C2, on the code. In scenario S4 (\<open>maxdata = 4\<close>, 8 octets, responses ACK(0), BUSY,
  ACK(1), ACK(2), ACK(3)) the third send, the one that answers BUSY, passes the address
  of the variable \<^verbatim>\<open>MbxOut\<close> and no buffer: the packet DATA(1) is not sent again. And
  when BUSY answers the zero-length DATA packet that ends a transfer (here a file of no
  octets), nothing is sent again and the call returns a positive work counter.
\<close>

theorem FOEwrite_busy_resend_S4:
  "map sent_view (sends (ecx_FOEwrite (master 16 S4_slave [1, 1, 1, 1, 1])
      1 [0x61] 0 8 [1, 2, 3, 4, 5, 6, 7, 8] 1000)) =
     [(Mbx 0, Some (ECT_FOE_WRITE, 0, [0x61])),
      (Mbx 2, Some (ECT_FOE_DATA, 1, [1, 2, 3, 4])),
      (AddrOf_MbxOut, None),
      (Mbx 5, Some (ECT_FOE_DATA, 2, [5, 6, 7, 8])),
      (Mbx 7, Some (ECT_FOE_DATA, 3, []))] \<and>
   wkc (ecx_FOEwrite
         (master 16 [nothing_pending, (1, slave_frame ECT_FOE_ACK 0 []),
                     (1, slave_frame ECT_FOE_BUSY 0 [])] [1, 1])
         1 [0x61] 0 0 [] 1000) = 1 \<and>
   map sent_view (sends (ecx_FOEwrite
         (master 16 [nothing_pending, (1, slave_frame ECT_FOE_ACK 0 []),
                     (1, slave_frame ECT_FOE_BUSY 0 [])] [1, 1])
         1 [0x61] 0 0 [] 1000)) =
     [(Mbx 0, Some (ECT_FOE_WRITE, 0, [0x61])), (Mbx 2, Some (ECT_FOE_DATA, 1, []))]"
  by (simp add: ecx_FOEwrite_def scenario_defs S4_slave_def write_run_defs sends_def Let_def
      cong: let_weak_cong)

section \<open>The mailbox counter\<close>

text \<open>
  A monitor for the counter: it starts from the counter of the slave at the call, steps
  to \<open>ec_nextmbxcnt\<close> of it at every send, and stops when a packet sent from a pool
  buffer carries another value in its type field. A send that passes no pool buffer
  steps the counter only.
\<close>

fun cnt_run :: "uint8 \<Rightarrow> event list \<Rightarrow> uint8 option" where
  "cnt_run c [] = Some c"
| "cnt_run c (E_mbxsend q (Some pkt) w # es) =
     (if mbx_hdr_cnt (mbxtype (MbxHeader pkt)) = ec_nextmbxcnt c
      then cnt_run (ec_nextmbxcnt c) es else None)"
| "cnt_run c (E_mbxsend q None w # es) = cnt_run (ec_nextmbxcnt c) es"
| "cnt_run c (e # es) = cnt_run c es"

lemma cnt_run_append:
  "cnt_run c (xs @ ys) = (case cnt_run c xs of None \<Rightarrow> None | Some c' \<Rightarrow> cnt_run c' ys)"
  by (induction c xs rule: cnt_run.induct) simp_all

lemma mod7_cases:
  fixes c :: uint8
  obtains "c mod 7 = 0" | "c mod 7 = 1" | "c mod 7 = 2" | "c mod 7 = 3"
    | "c mod 7 = 4" | "c mod 7 = 5" | "c mod 7 = 6"
proof -
  have "unat (c mod 7) < 7" by (simp add: unat_mod_distrib)
  then consider "unat (c mod 7) = 0" | "unat (c mod 7) = 1" | "unat (c mod 7) = 2"
    | "unat (c mod 7) = 3" | "unat (c mod 7) = 4" | "unat (c mod 7) = 5" | "unat (c mod 7) = 6"
    by linarith
  then show ?thesis
  proof cases
    case 1 then have "c mod 7 = 0" using word_unat_eq_iff [of "c mod 7" 0] by simp
    then show ?thesis by (rule that(1))
  next
    case 2 then have "c mod 7 = 1" using word_unat_eq_iff [of "c mod 7" 1] by simp
    then show ?thesis by (rule that(2))
  next
    case 3 then have "c mod 7 = 2" using word_unat_eq_iff [of "c mod 7" 2] by simp
    then show ?thesis by (rule that(3))
  next
    case 4 then have "c mod 7 = 3" using word_unat_eq_iff [of "c mod 7" 3] by simp
    then show ?thesis by (rule that(4))
  next
    case 5 then have "c mod 7 = 4" using word_unat_eq_iff [of "c mod 7" 4] by simp
    then show ?thesis by (rule that(5))
  next
    case 6 then have "c mod 7 = 5" using word_unat_eq_iff [of "c mod 7" 5] by simp
    then show ?thesis by (rule that(6))
  next
    case 7 then have "c mod 7 = 6" using word_unat_eq_iff [of "c mod 7" 6] by simp
    then show ?thesis by (rule that(7))
  qed
qed

lemma ec_nextmbxcnt_range: "1 \<le> ec_nextmbxcnt c \<and> ec_nextmbxcnt c \<le> 7"
  by (cases c rule: mod7_cases) (simp_all add: ec_nextmbxcnt_def)

lemma mbx_hdr_cnt_carried:
  "mbx_hdr_cnt (ECT_MBXT_FOE + MBX_HDR_SET_CNT (ec_nextmbxcnt c)) = ec_nextmbxcnt c"
  by (cases c rule: mod7_cases)
     (simp_all add: ec_nextmbxcnt_def mbx_hdr_cnt_def MBX_HDR_SET_CNT_def ECT_MBXT_FOE_def)


definition cnt_inv :: "uint8 \<Rightarrow> foe_locals \<Rightarrow> bool" where
  "cnt_inv c0 s \<longleftrightarrow> cnt_run c0 (trace (ctx s)) = Some (mbx_cnt (ctx s))"

lemma cnt_inv_foe_receive:
  assumes "cnt_inv c0 s"
  shows "cnt_inv c0 (foe_receive slave t s)"
proof -
  have d: "cnt_run c0 (trace (dropped_in s)) = Some (mbx_cnt (ctx s))"
    "mbx_cnt (dropped_in s) = mbx_cnt (ctx s)"
    using assms
    by (simp_all add: cnt_inv_def dropped_in_def ecx_dropmbx_def log_event_def cnt_run_append)
  show ?thesis
  proof (cases "0 < next_rx_wkc (rxscript (ctx s))")
    case False
    then show ?thesis using d by (simp add: foe_receive_none cnt_inv_def)
  next
    case True
    then obtain w f rest where rx: "rxscript (ctx s) = (w, f) # rest" and w: "0 < w"
      by (cases "rxscript (ctx s)") (auto simp add: next_rx_wkc_def)
    show ?thesis
      using d by (simp add: foe_receive_ok [OF rx w] cnt_inv_def received_def cnt_run_append)
  qed
qed

lemma cnt_run_FOEhook_call:
  "cnt_run c0 (trace (FOEhook_call slave n sz c)) = cnt_run c0 (trace c)"
  by (simp add: FOEhook_call_def log_event_def cnt_run_append split: option.splits)

lemma cnt_inv_read_accepted:
  assumes "cnt_inv c0 s"
  shows "cnt_inv c0 (read_accepted slave seg n a s)"
  using assms
  by (simp add: cnt_inv_def read_accepted_def cnt_run_append ack_packet_def foe_packet_def
      mbx_hdr_cnt_carried)

lemma cnt_inv_ack_sent:
  assumes "cnt_inv c0 s"
  shows "cnt_inv c0 (ack_sent slave s)"
  using assms
  by (simp add: cnt_inv_def ack_sent_def cnt_run_append cnt_run_FOEhook_call
      data_packet_def foe_packet_def mbx_hdr_cnt_carried)

lemma cnt_inv_busy_sent:
  assumes "cnt_inv c0 s"
  shows "cnt_inv c0 (busy_sent s)"
  using assms by (simp add: cnt_inv_def busy_sent_def cnt_run_append)

lemma cnt_inv_FOEread_response:
  assumes "cnt_inv c0 s"
  shows "cnt_inv c0 (FOEread_response slave s)"
proof -
  have pp: "cnt_inv c0 (s\<lparr>prevpacket := prevpacket s + 1\<rparr>)"
    using assms by (simp add: cnt_inv_def)
  show ?thesis
    using assms cnt_inv_read_accepted [OF pp]
    by (simp add: FOEread_response_def Let_def FOEread_accept_eq) (simp add: cnt_inv_def)
qed

lemma cnt_inv_FOEwrite_response:
  assumes "cnt_inv c0 s"
  shows "cnt_inv c0 (FOEwrite_response slave s)"
proof -
  have wk: "\<And>x. cnt_inv c0 (s\<lparr>wkc := x\<rparr>)"
    using assms by (simp add: cnt_inv_def)
  have hk: "cnt_inv c0 (s\<lparr>ctx := FOEhook_call slave (sendpacket s) (psize s) (ctx s)\<rparr>)"
    using assms by (simp add: cnt_inv_def cnt_run_FOEhook_call)
  have rw: "cnt_inv c0 (rewound s)"
    using assms by (simp add: cnt_inv_def rewound_def)
  have ack: "cnt_inv c0 (FOEwrite_ack slave (deref (ctx s) (MbxIn s)) s)"
    unfolding FOEwrite_ack_eq using cnt_inv_ack_sent [OF assms] hk wk by simp
  have busy: "cnt_inv c0 (FOEwrite_busy slave s)"
    unfolding FOEwrite_busy_eq using assms rw cnt_inv_busy_sent [OF rw] by simp
  show ?thesis
    using FOEwrite_response_kinds [of slave s] ack busy wk by auto
qed

lemma cnt_inv_FOEread_loop: "cnt_inv c0 s \<Longrightarrow> cnt_inv c0 (FOEread_loop slave t s)"
proof (induction slave t s rule: FOEread_loop.induct)
  case (1 slave t s)
  have "cnt_inv c0 (FOEread_body slave t s)"
    using "1.prems"
    by (simp add: FOEread_body_def Let_def cnt_inv_foe_receive cnt_inv_FOEread_response)
  with 1 show ?case
    by (cases "worktodo (FOEread_body slave t s)")
       (simp_all add: FOEread_loop_go FOEread_loop_stop)
qed

lemma cnt_inv_FOEwrite_loop: "cnt_inv c0 s \<Longrightarrow> cnt_inv c0 (FOEwrite_loop slave t s)"
proof (induction slave t s rule: FOEwrite_loop.induct)
  case (1 slave t s)
  have "cnt_inv c0 (FOEwrite_body slave t s)"
    using "1.prems"
    by (simp add: FOEwrite_body_def Let_def cnt_inv_foe_receive cnt_inv_FOEwrite_response)
  with 1 show ?case
    by (cases "worktodo (FOEwrite_body slave t s)")
       (simp_all add: FOEwrite_loop_go FOEwrite_loop_stop)
qed

lemma cnt_inv_foe_request:
  assumes "trace (ctx s) = []"
  shows "cnt_inv (mbx_cnt (ctx s)) (foe_request op slave fn pw s)"
  using assms
  by (simp add: foe_request_eq requested_def cnt_inv_def ecx_mbxreceive_def log_event_def
      cnt_run_append request_packet_def foe_packet_def mbx_hdr_cnt_carried split: list.splits)

lemma cnt_inv_foe_cleanup: "cnt_inv c0 s \<Longrightarrow> cnt_inv c0 (foe_cleanup s)"
  by (simp add: cnt_inv_def foe_cleanup_def Let_def ecx_dropmbx_def log_event_def cnt_run_append)

text \<open>
  In every call of either function the monitor runs through and ends at the counter
  stored for the slave: the counter is advanced and stored before each send, and every
  packet sent from a pool buffer carries the value just stored, which lies in 1..7.
\<close>

lemma FOE_counter_discipline:
  assumes "trace c = []"
  shows "cnt_run (mbx_cnt c) (trace (ctx (ecx_FOEread c slave fn pw sz buf t))) =
           Some (mbx_cnt (ctx (ecx_FOEread c slave fn pw sz buf t))) \<and>
         cnt_run (mbx_cnt c) (trace (ctx (ecx_FOEwrite c slave fn pw sz buf t))) =
           Some (mbx_cnt (ctx (ecx_FOEwrite c slave fn pw sz buf t)))"
proof -
  let ?r = "foe_request ECT_FOE_READ slave fn pw ((foe_entry c sz buf)\<lparr>buffersize := sz\<rparr>)"
  let ?w = "foe_request ECT_FOE_WRITE slave fn pw ((foe_entry c sz buf)\<lparr>dofinalzero := True\<rparr>)"
  have r: "cnt_inv (mbx_cnt c) ?r"
    using assms cnt_inv_foe_request [of "(foe_entry c sz buf)\<lparr>buffersize := sz\<rparr>"]
    by (simp add: foe_entry_def)
  have w: "cnt_inv (mbx_cnt c) ?w"
    using assms cnt_inv_foe_request [of "(foe_entry c sz buf)\<lparr>dofinalzero := True\<rparr>"]
    by (simp add: foe_entry_def)
  have ir: "cnt_inv (mbx_cnt c) (if 0 < wkc ?r then FOEread_loop slave t ?r else ?r)"
    using r by (simp add: cnt_inv_FOEread_loop)
  have iw: "cnt_inv (mbx_cnt c) (if 0 < wkc ?w then FOEwrite_loop slave t ?w else ?w)"
    using w by (simp add: cnt_inv_FOEwrite_loop)
  have er: "ecx_FOEread c slave fn pw sz buf t =
      foe_cleanup (if 0 < wkc ?r then FOEread_loop slave t ?r else ?r)"
    by (simp add: ecx_FOEread_def Let_def foe_entry_def)
  have ew: "ecx_FOEwrite c slave fn pw sz buf t =
      foe_cleanup (if 0 < wkc ?w then FOEwrite_loop slave t ?w else ?w)"
    by (simp add: ecx_FOEwrite_def Let_def foe_entry_def)
  show ?thesis
    unfolding er ew
    using cnt_inv_foe_cleanup [OF ir] cnt_inv_foe_cleanup [OF iw] by (simp add: cnt_inv_def)
qed

text \<open>The pointer a send passed on and, for a pool buffer, the counter its type field carries.\<close>

fun cnt_view :: "event \<Rightarrow> ptr \<times> uint8 option" where
  "cnt_view (E_mbxsend q (Some pkt) w) = (q, Some (mbx_hdr_cnt (mbxtype (MbxHeader pkt))))"
| "cnt_view (E_mbxsend q None w) = (q, None)"
| "cnt_view e = (NULL, None)"

text \<open>
  C7, on the code. In scenario S4 the packets sent from pool buffers carry the counters
  1, 2, 4 and 5. The counter 3 is computed and stored for the send that answers BUSY,
  and written into buffer 2, the buffer of the DATA packet sent before; what that send
  passes on is the address of \<^verbatim>\<open>MbxOut\<close>, so no packet carrying 3 goes out.
\<close>

theorem FOEwrite_busy_counter_S4:
  "map cnt_view (sends (ecx_FOEwrite (master 16 S4_slave [1, 1, 1, 1, 1])
      1 [0x61] 0 8 [1, 2, 3, 4, 5, 6, 7, 8] 1000)) =
     [(Mbx 0, Some 1), (Mbx 2, Some 2), (AddrOf_MbxOut, None), (Mbx 5, Some 4), (Mbx 7, Some 5)] \<and>
   mbx_hdr_cnt (mbxtype (MbxHeader (mbxmem (ctx (ecx_FOEwrite (master 16 S4_slave [1, 1, 1, 1, 1])
      1 [0x61] 0 8 [1, 2, 3, 4, 5, 6, 7, 8] 1000)) 2))) = 3 \<and>
   mbx_cnt (ctx (ecx_FOEwrite (master 16 S4_slave [1, 1, 1, 1, 1])
      1 [0x61] 0 8 [1, 2, 3, 4, 5, 6, 7, 8] 1000)) = 5"
  by (simp add: ecx_FOEwrite_def scenario_defs S4_slave_def write_run_defs sends_def Let_def
      mbx_hdr_cnt_def MBX_HDR_SET_CNT_def ec_nextmbxcnt_def cong: let_weak_cong)

end
